theory Spec2Isabelle
  imports Main "HOL-Library.AList"
begin

section \<open>JavaScript values\<close>

text \<open>
  The handlers exchange JSON documents. A value is \<open>null\<close>, a boolean, a number, a string,
  an array or an object; an object is an association list in insertion order, read with
  \<open>map_of\<close>. \<open>undefined\<close> is not a value of its own: a variable that may hold it has type
  \<open>json option\<close>, and a property holding \<open>undefined\<close> is an absent property, which is what
  JSON persistence makes of it. Numbers are integers (counts, lengths, unix seconds).
  Strings are lists of characters.
\<close>

datatype json =
    JNull
  | JBool bool
  | JNum int
  | JStr string
  | JArr "json list"
  | JObj "(string \<times> json) list"

text \<open>A top-level document (a job record, an update, a resolver payload) is a map from
  property names to values.\<close>

type_synonym obj = "string \<rightharpoonup> json"

fun truthy :: "json \<Rightarrow> bool" where
  "truthy JNull = False"
| "truthy (JBool b) = b"
| "truthy (JNum n) = (n \<noteq> 0)"
| "truthy (JStr s) = (s \<noteq> [])"
| "truthy (JArr xs) = True"
| "truthy (JObj kvs) = True"

definition truthy_opt :: "json option \<Rightarrow> bool" where
  "truthy_opt v = (case v of None \<Rightarrow> False | Some x \<Rightarrow> truthy x)"

text \<open>\<open>a || b\<close> on values that may be undefined, and \<open>a || literal\<close>.\<close>

definition js_or :: "json option \<Rightarrow> json option \<Rightarrow> json option" where
  "js_or a b = (if truthy_opt a then a else b)"

definition or_else :: "json option \<Rightarrow> json \<Rightarrow> json" where
  "or_else a b = (case a of None \<Rightarrow> b | Some x \<Rightarrow> if truthy x then x else b)"

text \<open>Property access \<open>v.k\<close> on a value that is not \<open>null\<close> (on \<open>null\<close> JavaScript throws,
  which each caller writes out), and optional chaining \<open>v?.k\<close>. Only own properties of
  objects are modelled; members that arrays and strings inherit from their prototypes
  are written out where the source uses them.\<close>

fun get_prop :: "json \<Rightarrow> string \<Rightarrow> json option" where
  "get_prop (JObj kvs) k = map_of kvs k"
| "get_prop v k = None"

definition prop_opt :: "json option \<Rightarrow> string \<Rightarrow> json option" where
  "prop_opt v k = (case v of None \<Rightarrow> None | Some JNull \<Rightarrow> None | Some x \<Rightarrow> get_prop x k)"

fun show_nat :: "nat \<Rightarrow> string" where
  "show_nat n =
     (if n < 10 then [''0123456789'' ! n]
      else show_nat (n div 10) @ [''0123456789'' ! (n mod 10)])"

declare show_nat.simps [simp del]

definition show_int :: "int \<Rightarrow> string" where
  "show_int n = (if n < 0 then ''-'' @ show_nat (nat (- n)) else show_nat (nat n))"

definition join_comma :: "string list \<Rightarrow> string" where
  "join_comma xs = (case xs of [] \<Rightarrow> [] | y # ys \<Rightarrow> foldl (\<lambda>acc s. acc @ '','' @ s) y ys)"

text \<open>String conversion, as a template literal does it.\<close>

fun to_str :: "json \<Rightarrow> string" where
  "to_str JNull = ''null''"
| "to_str (JBool b) = (if b then ''true'' else ''false'')"
| "to_str (JNum n) = show_int n"
| "to_str (JStr s) = s"
| "to_str (JArr xs) = join_comma (map (\<lambda>x. if x = JNull then [] else to_str x) xs)"
| "to_str (JObj kvs) = ''[object Object]''"

definition to_str_opt :: "json option \<Rightarrow> string" where
  "to_str_opt v = (case v of None \<Rightarrow> ''undefined'' | Some x \<Rightarrow> to_str x)"

text \<open>Object literals with properties that may be undefined: for a top-level document
  and for a nested object.\<close>

definition obj_of :: "(string \<times> json option) list \<Rightarrow> obj" where
  "obj_of fields k = (case map_of fields k of None \<Rightarrow> None | Some v \<Rightarrow> v)"

fun opt_fields :: "(string \<times> json option) list \<Rightarrow> (string \<times> json) list" where
  "opt_fields [] = []"
| "opt_fields ((k, None) # rest) = opt_fields rest"
| "opt_fields ((k, Some v) # rest) = (k, v) # opt_fields rest"

text \<open>The own enumerable properties that \<open>{...v}\<close> copies: those of an object, the indices
  of an array or of a string, none of any other value.\<close>

fun spread :: "json \<Rightarrow> (string \<times> json) list" where
  "spread (JObj kvs) = map (\<lambda>k. (k, the (map_of kvs k))) (remdups (map fst kvs))"
| "spread (JArr xs) = zip (map show_nat [0..<length xs]) xs"
| "spread (JStr s) = zip (map show_nat [0..<length s]) (map (\<lambda>c. JStr [c]) s)"
| "spread v = []"

text \<open>\<open>{...a, ...b}\<close>: the properties of \<open>a\<close> in order, overwritten by and extended with
  those of \<open>b\<close>.\<close>

definition merge_props :: "(string \<times> json) list \<Rightarrow> (string \<times> json) list \<Rightarrow> (string \<times> json) list" where
  "merge_props a b = fold (\<lambda>(k, v) acc. AList.update k v acc) b a"

subsection \<open>Strings\<close>

definition is_space :: "char \<Rightarrow> bool" where
  "is_space c = (c \<in> set [CHR 0x09, CHR 0x0A, CHR 0x0B, CHR 0x0C, CHR 0x0D, CHR 0x20, CHR 0xA0])"

definition trim :: "string \<Rightarrow> string" where
  "trim s = rev (dropWhile is_space (rev (dropWhile is_space s)))"

definition startsWith :: "string \<Rightarrow> string \<Rightarrow> bool" where
  "startsWith s p = (take (length p) s = p)"

definition endsWith :: "string \<Rightarrow> string \<Rightarrow> bool" where
  "endsWith s p = (length p \<le> length s \<and> drop (length s - length p) s = p)"

fun split_on :: "char \<Rightarrow> string \<Rightarrow> string list" where
  "split_on c [] = [[]]"
| "split_on c (x # xs) =
     (if x = c then [] # split_on c xs
      else (case split_on c xs of [] \<Rightarrow> [[x]] | y # ys \<Rightarrow> (x # y) # ys))"

definition toLowerCase :: "string \<Rightarrow> string" where
  "toLowerCase s =
     map (\<lambda>c. case map_of (zip ''ABCDEFGHIJKLMNOPQRSTUVWXYZ'' ''abcdefghijklmnopqrstuvwxyz'') c of
                None \<Rightarrow> c | Some l \<Rightarrow> l) s"

section \<open>The world outside the handlers\<close>

text \<open>
  What a handler observes and cannot compute is a field of the environment: the clock,
  the formatting of dates, the provider's answers, whether the storage rejects a delete,
  and the library functions (keyed digest, decoders, number and JSON parsing, the
  regular-expression rewrites of the e-mail draft). Every theorem holds for every
  environment. Storage reads and writes succeed; the clock is read once per invocation.
\<close>

datatype failure = Failure (fail_message: string) (fail_stack: string)

datatype exn = JsError string | TypeError | StorageError

datatype jsnum = NaN | PosInfinity | NegInfinity | Finite int

record env =
  now_ms :: int
  to_iso :: "int \<Rightarrow> string"
  delete_fails :: "string \<Rightarrow> bool"
  retrieveCompletion :: "json \<Rightarrow> failure + json"
  cancelCompletion :: "json \<Rightarrow> failure + json"
  env_secret :: "string option"
  process_secret :: "string option"
  stored_secret :: "string option"
  hmac_sha256 :: "string \<Rightarrow> string \<Rightarrow> string"
  base64_decode :: "string \<Rightarrow> string"
  hex_decode :: "string \<Rightarrow> string"
  to_number :: "string \<Rightarrow> jsnum"
  json_parse :: "string \<Rightarrow> string + json"
  json_stringify :: "json \<Rightarrow> string"
  translate_glossary :: "string \<Rightarrow> string"
  replace_team_signature :: "string \<Rightarrow> string \<Rightarrow> string option"

datatype effect =
    StorageGet string
  | StorageSet string
  | StorageDelete string
  | Retrieve json
  | CancelCall json
  | Publish string

record world =
  kv :: "string \<rightharpoonup> obj"
  trace :: "effect list"

definition log_effect :: "effect \<Rightarrow> world \<Rightarrow> world" where
  "log_effect e w = w\<lparr>trace := trace w @ [e]\<rparr>"

definition publishAppEvent :: "string \<Rightarrow> world \<Rightarrow> world" where
  "publishAppEvent key w = log_effect (Publish key) w"

section \<open>services/jobStore.js\<close>

definition QUEUED :: string where "QUEUED = ''queued''"
definition IN_PROGRESS :: string where "IN_PROGRESS = ''in_progress''"
definition COMPLETED :: string where "COMPLETED = ''completed''"
definition FAILED :: string where "FAILED = ''failed''"
definition CANCELLED :: string where "CANCELLED = ''cancelled''"

definition JOB_KEY_PREFIX :: string where "JOB_KEY_PREFIX = ''async-job:''"


definition nowIso :: "env \<Rightarrow> string" where
  "nowIso E = to_iso E (now_ms E)"

definition buildJobKey :: "json option \<Rightarrow> string" where
  "buildJobKey jobId = JOB_KEY_PREFIX @ to_str_opt jobId"

text \<open>The marker appended to a cut string: the bytes of the source's string literal.\<close>

definition truncation_marker :: string where
  "truncation_marker = [CHR 0xC3, CHR 0xA2, CHR 0xE2, CHR 0x82, CHR 0xAC, CHR 0xC2, CHR 0xA6]"

text \<open>\<open>truncate\<close> of the source; the suffix keeps the name apart from the record operation of
  the same name.\<close>

definition truncate_js :: "json \<Rightarrow> nat \<Rightarrow> json" where
  "truncate_js v maxLength =
     (case v of
        JStr s \<Rightarrow>
          if s = [] then v
          else if length s \<le> maxLength then v
          else JStr (take maxLength s @ truncation_marker)
      | _ \<Rightarrow> v)"


text \<open>\<open>results.map(f)\<close> for an \<open>f\<close> that may throw: the first exception ends the loop.\<close>

fun map_throwing :: "('a \<Rightarrow> exn + 'b) \<Rightarrow> 'a list \<Rightarrow> exn + 'b list" where
  "map_throwing f [] = Inr []"
| "map_throwing f (x # xs) =
     (case f x of
        Inl e \<Rightarrow> Inl e
      | Inr y \<Rightarrow> (case map_throwing f xs of Inl e \<Rightarrow> Inl e | Inr ys \<Rightarrow> Inr (y # ys)))"

text \<open>A JSON round trip of a value of type \<open>json\<close> gives the value back: HOL values are
  immutable, so the defensive copy is the value itself.\<close>

definition safeClone :: "json \<Rightarrow> json" where
  "safeClone v = v"





definition getJobRecord :: "json option \<Rightarrow> world \<Rightarrow> obj option \<times> world" where
  "getJobRecord jobId w = (kv w (buildJobKey jobId), log_effect (StorageGet (buildJobKey jobId)) w)"

text \<open>The four conditional assignments of \<open>updateJobRecord\<close>: \<open>result\<close> and \<open>error\<close> are
  replaced when the update has them at all, \<open>llmCharacters\<close> and \<open>vectorStats\<close> when the
  update has a truthy value for them.\<close>

definition replace_if_defined :: "string \<Rightarrow> obj \<Rightarrow> obj \<Rightarrow> obj" where
  "replace_if_defined field updates merged =
     (case updates field of
        None \<Rightarrow> merged
      | Some v \<Rightarrow> merged(field \<mapsto> safeClone v))"

definition replace_if_truthy :: "string \<Rightarrow> obj \<Rightarrow> obj \<Rightarrow> obj" where
  "replace_if_truthy field updates merged =
     (case updates field of
        None \<Rightarrow> merged
      | Some v \<Rightarrow> if truthy v then merged(field \<mapsto> safeClone v) else merged)"

definition merge_auxiliaryData :: "obj \<Rightarrow> obj \<Rightarrow> obj \<Rightarrow> obj" where
  "merge_auxiliaryData existing updates merged =
     (case updates ''auxiliaryData'' of
        None \<Rightarrow> merged
      | Some v \<Rightarrow>
          if truthy v
          then merged(''auxiliaryData'' \<mapsto>
                 JObj (merge_props (spread (or_else (existing ''auxiliaryData'') (JObj [])))
                                   (spread (safeClone v))))
          else merged)"

text \<open>The record that \<open>updateJobRecord\<close> starts from when the store has none.\<close>

definition shell_record :: "env \<Rightarrow> json option \<Rightarrow> obj" where
  "shell_record E jobId =
     obj_of [(''jobId'', jobId),
             (''createdAt'', Some (JStr (nowIso E))),
             (''processedWebhookIds'', Some (JArr []))]"

definition existing_record :: "env \<Rightarrow> json option \<Rightarrow> world \<Rightarrow> obj" where
  "existing_record E jobId w =
     (case kv w (buildJobKey jobId) of Some r \<Rightarrow> r | None \<Rightarrow> shell_record E jobId)"

definition updateJobRecord :: "env \<Rightarrow> json option \<Rightarrow> obj \<Rightarrow> world \<Rightarrow> obj \<times> world" where
  "updateJobRecord E jobId updates w =
     (let key = buildJobKey jobId;
          existing = existing_record E jobId w;
          merged0 = (existing ++ updates)
                      (''status'' := js_or (updates ''status'') (existing ''status''),
                       ''updatedAt'' \<mapsto> JStr (nowIso E));
          merged = merge_auxiliaryData existing updates
                     (replace_if_truthy ''vectorStats'' updates
                        (replace_if_truthy ''llmCharacters'' updates
                           (replace_if_defined ''error'' updates
                              (replace_if_defined ''result'' updates merged0))))
      in (merged, log_effect (StorageSet key) (log_effect (StorageGet key) w)\<lparr>kv := (kv w)(key \<mapsto> merged)\<rparr>))"

definition deleteJobRecord :: "env \<Rightarrow> json option \<Rightarrow> world \<Rightarrow> (exn + unit) \<times> world" where
  "deleteJobRecord E jobId w =
     (let key = buildJobKey jobId; w1 = log_effect (StorageDelete key) w
      in if delete_fails E key then (Inl StorageError, w1)
         else (Inr (), w1\<lparr>kv := (kv w1)(key := None)\<rparr>))"

section \<open>handlers/cancelJob.js and handlers/getJobStatus.js\<close>

record reply =
  success :: bool
  job :: "obj option"
  error_text :: "string option"
  message_text :: "string option"

definition FINAL_STATUSES :: "json list" where
  "FINAL_STATUSES = [JStr COMPLETED, JStr FAILED, JStr CANCELLED]"

definition is_final :: "json option \<Rightarrow> bool" where
  "is_final status = (case status of None \<Rightarrow> False | Some s \<Rightarrow> s \<in> set FINAL_STATUSES)"

definition failed_reply :: "string \<Rightarrow> reply" where
  "failed_reply msg = \<lparr>success = False, job = None, error_text = Some msg, message_text = None\<rparr>"

definition cancelJob :: "env \<Rightarrow> json option \<Rightarrow> world \<Rightarrow> (exn + reply) \<times> world" where
  "cancelJob E jobId w =
     (if \<not> truthy_opt jobId
      then (Inr (failed_reply ''Job identifier is required to request cancellation.''), w)
      else
        (case getJobRecord jobId w of
           (None, w1) \<Rightarrow>
             (Inr (failed_reply (''No background job found for id '' @ to_str_opt jobId @ ''.'')), w1)
         | (Some record, w1) \<Rightarrow>
             if is_final (record ''status'')
             then (Inr \<lparr>success = True, job = Some record, error_text = None,
                        message_text = Some (''Job already settled with status ''
                                             @ to_str_opt (record ''status'') @ ''.'')\<rparr>, w1)
             else
               (let w2 = log_effect (CancelCall (the jobId)) w1 in
                case cancelCompletion E (the jobId) of
                  Inl f \<Rightarrow> (Inl (JsError (fail_message f)), w2)
                | Inr cancelResponse \<Rightarrow>
                    (case updateJobRecord E jobId
                            (obj_of
                               [(''status'', Some (JStr CANCELLED)),
                                (''result'', Some JNull),
                                (''error'', Some (JObj (opt_fields
                                   [(''reason'', Some (JStr ''cancelled_by_user'')),
                                    (''message'', Some (JStr ''Job cancelled at the request of the agent.'')),
                                    (''openaiStatus'', prop_opt (Some cancelResponse) ''status'')])))])
                            w2 of
                       (updated, w3) \<Rightarrow>
                         let sanitised = updated(''processedWebhookIds'' := None);
                             eventKey = (if updated ''jobType'' = Some (JStr ''analysis'')
                                         then ''job-analysis-cancelled''
                                         else ''job-response-cancelled'')
                         in (Inr \<lparr>success = True, job = Some sanitised, error_text = None,
                                   message_text = None\<rparr>,
                             publishAppEvent eventKey w3)))))"

definition getJobStatus :: "json option \<Rightarrow> world \<Rightarrow> reply \<times> world" where
  "getJobStatus jobId w =
     (if \<not> truthy_opt jobId
      then (failed_reply ''Job identifier is required to check status.'', w)
      else
        (case getJobRecord jobId w of
           (None, w1) \<Rightarrow>
             (failed_reply (''No background job found for id '' @ to_str_opt jobId @ ''.''), w1)
         | (Some record, w1) \<Rightarrow>
             (\<lparr>success = True, job = Some (record(''processedWebhookIds'' := None)),
               error_text = None, message_text = None\<rparr>, w1)))"

section \<open>handlers/cleanupJobs.js\<close>

record sweep_reply =
  sweep_success :: bool
  pruned :: nat
  sweep_message :: string

text \<open>The \<open>for\<close> loop over the expired jobs: a rejected delete leaves the loop and the
  handler with the exception.\<close>

fun delete_each :: "env \<Rightarrow> obj list \<Rightarrow> nat \<Rightarrow> world \<Rightarrow> (exn + nat) \<times> world" where
  "delete_each E [] deleted w = (Inr deleted, w)"
| "delete_each E (j # jobs) deleted w =
     (case deleteJobRecord E (j ''jobId'') w of
        (Inl e, w1) \<Rightarrow> (Inl e, w1)
      | (Inr u, w1) \<Rightarrow> delete_each E jobs (deleted + 1) w1)"

text \<open>The scheduled handler, from the list that \<open>listExpiredJobs\<close> resolved to.\<close>

definition cleanupJobs_run :: "env \<Rightarrow> obj list \<Rightarrow> world \<Rightarrow> (exn + sweep_reply) \<times> world" where
  "cleanupJobs_run E expiredJobs w =
     (if expiredJobs = []
      then (Inr \<lparr>sweep_success = True, pruned = 0, sweep_message = ''No expired jobs to delete.''\<rparr>, w)
      else
        (case delete_each E expiredJobs 0 w of
           (Inl e, w1) \<Rightarrow> (Inl e, w1)
         | (Inr deleted, w1) \<Rightarrow>
             (Inr \<lparr>sweep_success = True, pruned = deleted,
                   sweep_message = ''Removed '' @ show_nat deleted @ '' expired job''
                                   @ (if deleted = 1 then '''' else ''s'') @ '' from storage.''\<rparr>, w1)))"

section \<open>services/openai.js: the text of a retrieved artifact\<close>

text \<open>The relational comparison \<open>v > 0\<close> with JavaScript's coercion to a number.\<close>

definition js_gt_zero :: "env \<Rightarrow> json option \<Rightarrow> bool" where
  "js_gt_zero E v =
     (case v of
        None \<Rightarrow> False
      | Some JNull \<Rightarrow> False
      | Some (JBool b) \<Rightarrow> b
      | Some (JNum n) \<Rightarrow> 0 < n
      | Some (JObj kvs) \<Rightarrow> False
      | Some x \<Rightarrow> (case to_number E (to_str x) of
                     Finite n \<Rightarrow> 0 < n | PosInfinity \<Rightarrow> True | _ \<Rightarrow> False))"

datatype 'a scan = Found 'a | NotFound | Threw

fun scan_blocks :: "json list \<Rightarrow> string scan" where
  "scan_blocks [] = NotFound"
| "scan_blocks (block # blocks) =
     (case block of
        JNull \<Rightarrow> Threw
      | _ \<Rightarrow>
          if get_prop block ''type'' = Some (JStr ''output_text'')
          then (case get_prop block ''text'' of Some (JStr t) \<Rightarrow> Found (trim t) | _ \<Rightarrow> Threw)
          else scan_blocks blocks)"

fun scan_items :: "json list \<Rightarrow> string scan" where
  "scan_items [] = NotFound"
| "scan_items (item # items) =
     (case item of
        JNull \<Rightarrow> Threw
      | _ \<Rightarrow>
          (case get_prop item ''content'' of
             Some (JArr blocks) \<Rightarrow>
               (case scan_blocks blocks of NotFound \<Rightarrow> scan_items items | r \<Rightarrow> r)
           | Some (JStr s) \<Rightarrow> scan_items items
           | Some c \<Rightarrow> if truthy c then Threw else scan_items items
           | None \<Rightarrow> scan_items items))"

definition extractResponseText :: "env \<Rightarrow> json \<Rightarrow> exn + string" where
  "extractResponseText E response =
     (case response of
        JNull \<Rightarrow> Inl TypeError
      | _ \<Rightarrow>
          (case get_prop response ''output'' of
             Some (JArr items) \<Rightarrow>
               (case scan_items items of
                  Found t \<Rightarrow> Inr t
                | NotFound \<Rightarrow> Inr ''No output returned''
                | Threw \<Rightarrow> Inl TypeError)
           | Some (JObj kvs) \<Rightarrow>
               if js_gt_zero E (map_of kvs ''length'') then Inl TypeError
               else Inr ''No output returned''
           | _ \<Rightarrow> Inr ''No output returned''))"

section \<open>services/resultPostProcessor.js\<close>

definition code_fence :: string where
  "code_fence = [CHR 0x60, CHR 0x60, CHR 0x60]"

definition strip_closing_fence :: "string \<Rightarrow> string" where
  "strip_closing_fence s = (if endsWith s code_fence then take (length s - 3) s else s)"

definition sanitiseJson :: "string \<Rightarrow> string" where
  "sanitiseJson payload =
     (if payload = [] then payload
      else
        let trimmed = trim payload in
        if startsWith trimmed (code_fence @ ''json'')
        then trim (strip_closing_fence (dropWhile is_space (drop 7 trimmed)))
        else if startsWith trimmed code_fence
        then trim (strip_closing_fence (drop 3 trimmed))
        else trimmed)"

text \<open>The message of the \<open>TypeError\<close> that reading a property of \<open>null\<close> throws.\<close>

definition null_read_message :: "string \<Rightarrow> string" where
  "null_read_message k =
     ''Cannot read properties of null (reading '' @ [CHR 0x27] @ k @ [CHR 0x27] @ '')''"

definition parseAnalysisResponse :: "env \<Rightarrow> string \<Rightarrow> exn + json" where
  "parseAnalysisResponse E text =
     (case json_parse E (sanitiseJson text) of
        Inl m \<Rightarrow> Inl (JsError (''Failed to parse analysis response: '' @ m))
      | Inr JNull \<Rightarrow>
          Inl (JsError (''Failed to parse analysis response: '' @ null_read_message ''summary''))
      | Inr parsed \<Rightarrow>
          if \<not> truthy_opt (get_prop parsed ''summary'')
             \<or> \<not> truthy_opt (get_prop parsed ''internalNote'')
             \<or> \<not> truthy_opt (get_prop parsed ''recommendationPlan'')
          then Inl (JsError (''Failed to parse analysis response: ''
                             @ ''Analysis output missing required fields.''))
          else Inr parsed)"

definition translateTerms :: "env \<Rightarrow> json option \<Rightarrow> string" where
  "translateTerms E candidateText =
     (case candidateText of
        Some (JStr s) \<Rightarrow> if s = [] then s else translate_glossary E s
      | _ \<Rightarrow> [])"

definition parseFinalResponse :: "env \<Rightarrow> string \<Rightarrow> exn + json" where
  "parseFinalResponse E text =
     (case json_parse E (sanitiseJson text) of
        Inl m \<Rightarrow> Inl (JsError (''Failed to parse final response: '' @ m))
      | Inr JNull \<Rightarrow>
          Inl (JsError (''Failed to parse final response: '' @ null_read_message ''emailDraft''))
      | Inr parsed \<Rightarrow>
          if \<not> truthy_opt (get_prop parsed ''emailDraft'')
             \<or> \<not> truthy_opt (get_prop parsed ''internalNote'')
          then Inl (JsError (''Failed to parse final response: ''
                             @ ''Missing emailDraft or internalNote in response.''))
          else Inr (JObj (AList.update ''emailDraft''
                            (JStr (translateTerms E (get_prop parsed ''emailDraft'')))
                            (spread parsed))))"

definition array_or_empty :: "json option \<Rightarrow> json" where
  "array_or_empty v = (case v of Some (JArr xs) \<Rightarrow> JArr xs | _ \<Rightarrow> JArr [])"

definition normaliseRecommendationPlan :: "json option \<Rightarrow> exn + json" where
  "normaliseRecommendationPlan plan =
     (case (case plan of None \<Rightarrow> JObj [] | Some p \<Rightarrow> p) of
        JNull \<Rightarrow> Inl TypeError
      | p \<Rightarrow> Inr (JObj
          [(''customerSteps'', array_or_empty (get_prop p ''customerSteps'')),
           (''agentSteps'', array_or_empty (get_prop p ''agentSteps'')),
           (''toolSuggestions'', array_or_empty (get_prop p ''toolSuggestions''))]))"

text \<open>\<open>v.slice(0, 480)\<close> on a truthy value: strings and arrays have the method.\<close>

definition slice_480 :: "json \<Rightarrow> exn + json" where
  "slice_480 v =
     (case v of
        JStr s \<Rightarrow> Inr (JStr (take 480 s))
      | JArr xs \<Rightarrow> Inr (JArr (take 480 xs))
      | _ \<Rightarrow> Inl TypeError)"

definition article_of_result :: "json \<Rightarrow> exn + json" where
  "article_of_result result =
     (case result of
        JNull \<Rightarrow> Inl TypeError
      | _ \<Rightarrow>
          let metadata = get_prop result ''metadata'' in
          (case slice_480 (or_else (prop_opt metadata ''content'') (JStr [])) of
             Inl e \<Rightarrow> Inl e
           | Inr snippet \<Rightarrow>
               Inr (JObj
                 [(''title'', or_else (prop_opt metadata ''title'') (JStr ''Knowledge Base Article'')),
                  (''link'', or_else (prop_opt metadata ''link'') (JStr [])),
                  (''contentSnippet'', snippet)])))"

text \<open>\<open>searchResults[index]\<close> on a truthy value.\<close>

definition element_at :: "json \<Rightarrow> nat \<Rightarrow> json option" where
  "element_at v i =
     (case v of
        JArr xs \<Rightarrow> if i < length xs then Some (xs ! i) else None
      | JStr s \<Rightarrow> if i < length s then Some (JStr [s ! i]) else None
      | JObj kvs \<Rightarrow> map_of kvs (show_nat i)
      | _ \<Rightarrow> None)"

definition article_with_fallback :: "json \<Rightarrow> json \<Rightarrow> nat \<Rightarrow> exn + json" where
  "article_with_fallback searchResults article index =
     (case article of
        JNull \<Rightarrow> Inl TypeError
      | _ \<Rightarrow>
          let fallback = or_else (prop_opt (element_at searchResults index) ''metadata'') (JObj []);
              primary = js_or (get_prop article ''contentSnippet'') (get_prop article ''content'')
          in
          (case (case primary of
                   Some p \<Rightarrow> if truthy p then Inr p
                              else (case get_prop fallback ''content'' of
                                      Some c \<Rightarrow> if truthy c then slice_480 c else Inr (JStr [])
                                    | None \<Rightarrow> Inr (JStr []))
                 | None \<Rightarrow> (case get_prop fallback ''content'' of
                               Some c \<Rightarrow> if truthy c then slice_480 c else Inr (JStr [])
                             | None \<Rightarrow> Inr (JStr []))) of
             Inl e \<Rightarrow> Inl e
           | Inr snippet \<Rightarrow>
               Inr (JObj
                 [(''title'', or_else (js_or (get_prop article ''title'') (get_prop fallback ''title''))
                                      (JStr (''Article '' @ show_nat (index + 1)))),
                  (''link'', or_else (js_or (get_prop article ''link'') (get_prop fallback ''link''))
                                     (JStr [])),
                  (''contentSnippet'', snippet)])))"

fun map_articles :: "json \<Rightarrow> json list \<Rightarrow> nat \<Rightarrow> exn + json list" where
  "map_articles searchResults [] index = Inr []"
| "map_articles searchResults (article # articles) index =
     (case article_with_fallback searchResults article index of
        Inl e \<Rightarrow> Inl e
      | Inr y \<Rightarrow>
          (case map_articles searchResults articles (index + 1) of
             Inl e \<Rightarrow> Inl e
           | Inr ys \<Rightarrow> Inr (y # ys)))"

definition enrichArticles :: "json option \<Rightarrow> json \<Rightarrow> exn + json" where
  "enrichArticles articles searchResults =
     (case articles of
        Some (JArr (a # as)) \<Rightarrow>
          (case map_articles searchResults (a # as) 0 of
             Inl e \<Rightarrow> Inl e
           | Inr ys \<Rightarrow> Inr (JArr ys))
      | _ \<Rightarrow>
          (case searchResults of
             JArr results \<Rightarrow>
               (case map_throwing article_of_result results of
                  Inl e \<Rightarrow> Inl e
                | Inr ys \<Rightarrow> Inr (JArr ys))
           | _ \<Rightarrow> Inl TypeError))"

section \<open>webhooks/openaiWebhook.js: signature verification\<close>

definition SIGNATURE_TOLERANCE_SECONDS :: int where
  "SIGNATURE_TOLERANCE_SECONDS = 300"

text \<open>A header value is a string or an array of strings.\<close>

datatype hval = HStr string | HArr "string list"

type_synonym headers = "string \<rightharpoonup> hval"

definition hval_truthy :: "hval option \<Rightarrow> bool" where
  "hval_truthy v = (case v of None \<Rightarrow> False | Some (HStr s) \<Rightarrow> s \<noteq> [] | Some (HArr xs) \<Rightarrow> True)"

definition hval_or :: "hval option \<Rightarrow> hval option \<Rightarrow> hval option" where
  "hval_or a b = (if hval_truthy a then a else b)"

text \<open>The string that \<open>Number(v)\<close> and a template literal read from a header value.\<close>

definition hval_str :: "hval \<Rightarrow> string" where
  "hval_str v = (case v of HStr s \<Rightarrow> s | HArr xs \<Rightarrow> join_comma xs)"

definition present :: "string option \<Rightarrow> bool" where
  "present v = (case v of None \<Rightarrow> False | Some s \<Rightarrow> s \<noteq> [])"

definition normaliseHeaderValue :: "hval option \<Rightarrow> string option" where
  "normaliseHeaderValue v =
     (case v of
        None \<Rightarrow> None
      | Some (HStr s) \<Rightarrow> Some s
      | Some (HArr []) \<Rightarrow> None
      | Some (HArr (x # xs)) \<Rightarrow> Some x)"

fun normaliseSignatureHeader :: "headers \<Rightarrow> string list \<Rightarrow> string option" where
  "normaliseSignatureHeader hs [] = None"
| "normaliseSignatureHeader hs (name # candidates) =
     (if hval_truthy (hs name) then normaliseHeaderValue (hs name)
      else normaliseSignatureHeader hs candidates)"

text \<open>The part before the first \<open>=\<close> and the part after it.\<close>

definition key_of :: "string \<Rightarrow> string" where
  "key_of part = takeWhile (\<lambda>c. c \<noteq> CHR ''='') part"

definition value_of :: "string \<Rightarrow> string" where
  "value_of part = drop 1 (dropWhile (\<lambda>c. c \<noteq> CHR ''='') part)"

definition num_truthy :: "jsnum option \<Rightarrow> bool" where
  "num_truthy t = (case t of None \<Rightarrow> False | Some NaN \<Rightarrow> False | Some (Finite n) \<Rightarrow> n \<noteq> 0 | Some _ \<Rightarrow> True)"

definition openai_part :: "env \<Rightarrow> string \<Rightarrow> jsnum option \<times> string list \<Rightarrow> jsnum option \<times> string list" where
  "openai_part E part acc =
     (if CHR ''='' \<notin> set part then acc
      else
        let key = key_of part; v = value_of part in
        if key = [] \<or> v = [] then acc
        else if key = ''t'' then (Some (to_number E v), snd acc)
        else if startsWith key ''v'' then (fst acc, snd acc @ [v])
        else acc)"

definition parseOpenAiSignature :: "env \<Rightarrow> string \<Rightarrow> (jsnum \<times> string list) option" where
  "parseOpenAiSignature E signatureHeader =
     (if trim signatureHeader = [] then None
      else
        (case fold (openai_part E) (map trim (split_on CHR '','' signatureHeader)) (None, []) of
           (t, signatures) \<Rightarrow>
             (case t of
                None \<Rightarrow> None
              | Some timestamp \<Rightarrow>
                  if \<not> num_truthy t \<or> signatures = [] then None
                  else Some (timestamp, signatures))))"

definition parseSvixSignature :: "string \<Rightarrow> string list option" where
  "parseSvixSignature signatureHeader =
     (if trim signatureHeader = [] then None
      else
        let signatures =
              map value_of
                (filter (\<lambda>part. CHR ''='' \<in> set part \<and> key_of part \<noteq> [] \<and> value_of part \<noteq> [])
                   (map trim (split_on CHR '','' signatureHeader)))
        in if signatures = [] then None else Some signatures)"

fun standard_segments :: "string list \<Rightarrow> string list" where
  "standard_segments [] = []"
| "standard_segments (segment # rest) =
     (if segment = [] then standard_segments rest
      else if CHR ''='' \<in> set segment
      then
        (let key = trim (key_of segment); v = trim (value_of segment) in
         if key \<noteq> [] \<and> startsWith key ''v'' \<and> v \<noteq> [] then v # standard_segments rest
         else standard_segments rest)
      else if startsWith segment ''v''
      then
        (case rest of
           [] \<Rightarrow> []
         | next # rest' \<Rightarrow>
             if next \<noteq> [] \<and> \<not> startsWith next ''v'' then next # standard_segments rest'
             else standard_segments rest)
      else standard_segments rest)"

definition parseStandardSignature :: "string \<Rightarrow> string list option" where
  "parseStandardSignature signatureHeader =
     (if trim signatureHeader = [] then None
      else
        let segments = filter (\<lambda>s. s \<noteq> []) (map trim (split_on CHR '','' signatureHeader)) in
        if segments = [] then None
        else
          let signatures = standard_segments segments in
          if signatures = [] then None else Some signatures)"

definition decodeSignatureCandidate :: "env \<Rightarrow> string \<Rightarrow> nat \<Rightarrow> string option" where
  "decodeSignatureCandidate E signature expectedLength =
     (if signature = [] then None
      else if length (base64_decode E signature) = expectedLength then Some (base64_decode E signature)
      else if length (hex_decode E signature) = expectedLength then Some (hex_decode E signature)
      else None)"

definition strip_whsec :: "string \<Rightarrow> string" where
  "strip_whsec secret = (if startsWith secret ''whsec_'' then drop 6 secret else secret)"

definition deriveStandardSecretKey :: "env \<Rightarrow> string \<Rightarrow> string option" where
  "deriveStandardSecretKey E secret =
     (if secret = [] then None
      else
        let key = base64_decode E (strip_whsec secret) in
        if 0 < length key then Some key else None)"

definition matchesSignature :: "env \<Rightarrow> string \<Rightarrow> string \<Rightarrow> string list \<Rightarrow> bool" where
  "matchesSignature E secret payload signatures =
     (let computed = hmac_sha256 E secret payload in
      list_ex (\<lambda>signature.
                 case decodeSignatureCandidate E signature (length computed) of
                   None \<Rightarrow> False
                 | Some provided \<Rightarrow> provided = computed)
              signatures)"

definition nowSeconds :: "env \<Rightarrow> int" where
  "nowSeconds E = now_ms E div 1000"

text \<open>\<open>Math.abs(nowSeconds - timestamp) > SIGNATURE_TOLERANCE_SECONDS\<close>; every comparison
  with \<open>NaN\<close> is false.\<close>

definition outside_tolerance :: "env \<Rightarrow> jsnum \<Rightarrow> bool" where
  "outside_tolerance E timestamp =
     (case timestamp of
        NaN \<Rightarrow> False
      | Finite t \<Rightarrow> SIGNATURE_TOLERANCE_SECONDS < \<bar>nowSeconds E - t\<bar>
      | _ \<Rightarrow> True)"

definition num_str :: "jsnum \<Rightarrow> string" where
  "num_str n =
     (case n of
        NaN \<Rightarrow> ''NaN''
      | PosInfinity \<Rightarrow> ''Infinity''
      | NegInfinity \<Rightarrow> ''-Infinity''
      | Finite i \<Rightarrow> show_int i)"

definition is_finite :: "jsnum \<Rightarrow> bool" where
  "is_finite n = (case n of Finite i \<Rightarrow> True | _ \<Rightarrow> False)"

text \<open>The three blocks of \<open>unwrapWebhookEvent\<close>, one per scheme: each throws or gives the
  new value of \<open>payloadVerified\<close>.\<close>

definition verify_openai :: "env \<Rightarrow> string \<Rightarrow> string \<Rightarrow> string \<Rightarrow> exn + bool" where
  "verify_openai E rawBody secret openAiSignatureHeader =
     (case parseOpenAiSignature E openAiSignatureHeader of
        None \<Rightarrow> Inl (JsError ''Malformed OpenAI webhook signature header.'')
      | Some (timestamp, signatures) \<Rightarrow>
          if outside_tolerance E timestamp
          then Inl (JsError ''OpenAI webhook timestamp outside the allowed tolerance.'')
          else Inr (matchesSignature E secret (num_str timestamp @ ''.'' @ rawBody) signatures))"

definition verify_svix :: "env \<Rightarrow> string \<Rightarrow> headers \<Rightarrow> string \<Rightarrow> string \<Rightarrow> exn + bool" where
  "verify_svix E rawBody hs secret svixSignatureHeader =
     (let parsed = parseSvixSignature svixSignatureHeader;
          timestampHeader = hval_or (hs ''svix-timestamp'')
                              (hval_or (hs ''x-openai-timestamp'') (hs ''openai-timestamp''));
          svixIdHeader = normaliseHeaderValue (hs ''svix-id'')
      in
      case (parsed, timestampHeader, svixIdHeader) of
        (Some signatures, Some th, Some svixId) \<Rightarrow>
          if \<not> hval_truthy timestampHeader \<or> svixId = []
          then Inl (JsError ''Malformed Svix webhook signature headers.'')
          else if \<not> is_finite (to_number E (hval_str th))
          then Inl (JsError ''Invalid Svix webhook timestamp.'')
          else if outside_tolerance E (to_number E (hval_str th))
          then Inl (JsError ''Svix webhook timestamp outside the allowed tolerance.'')
          else
            let key = base64_decode E (strip_whsec secret) in
            if length key = 0 then Inl (JsError ''Decoded Svix webhook secret is empty.'')
            else
              let computed = hmac_sha256 E key (svixId @ ''.'' @ hval_str th @ ''.'' @ rawBody) in
              Inr (list_ex (\<lambda>signature.
                              let provided = base64_decode E signature in
                              if length provided \<noteq> length computed then False
                              else provided = computed)
                           signatures)
      | _ \<Rightarrow> Inl (JsError ''Malformed Svix webhook signature headers.''))"

definition verify_standard ::
  "env \<Rightarrow> string \<Rightarrow> headers \<Rightarrow> string \<Rightarrow> string option \<Rightarrow> string \<Rightarrow> exn + bool" where
  "verify_standard E rawBody hs secret webhookIdHeader standardSignatureHeader =
     (let parsed = parseStandardSignature standardSignatureHeader;
          timestampHeader = normaliseSignatureHeader hs
             [''webhook-timestamp'', ''svix-timestamp'', ''x-openai-timestamp'', ''openai-timestamp'']
      in
      case (parsed, timestampHeader, webhookIdHeader) of
        (Some signatures, Some th, Some webhookId) \<Rightarrow>
          if th = [] \<or> webhookId = []
          then Inl (JsError ''Malformed Standard webhook signature headers.'')
          else if \<not> is_finite (to_number E th)
          then Inl (JsError ''Invalid Standard webhook timestamp.'')
          else if outside_tolerance E (to_number E th)
          then Inl (JsError ''Standard webhook timestamp outside the allowed tolerance.'')
          else
            (case deriveStandardSecretKey E secret of
               None \<Rightarrow> Inl (JsError ''Invalid Standard webhook secret.'')
             | Some secretKey \<Rightarrow>
                 Inr (matchesSignature E secretKey (webhookId @ ''.'' @ th @ ''.'' @ rawBody) signatures))
      | _ \<Rightarrow> Inl (JsError ''Malformed Standard webhook signature headers.''))"

text \<open>Lines 359 to 537 of \<open>unwrapWebhookEvent\<close>: the value of \<open>payloadVerified\<close> when the
  final test is reached, or the exception thrown before it.\<close>

definition payloadVerified :: "env \<Rightarrow> string \<Rightarrow> headers \<Rightarrow> string \<Rightarrow> exn + bool" where
  "payloadVerified E rawBody hs secret =
     (let openAiSignatureHeader =
            normaliseSignatureHeader hs [''x-openai-signature'', ''openai-signature''];
          svixSignatureHeader = normaliseSignatureHeader hs [''svix-signature''];
          standardSignatureHeader = normaliseSignatureHeader hs [''webhook-signature''];
          webhookIdHeader = normaliseSignatureHeader hs [''webhook-id'']
      in
      if \<not> present openAiSignatureHeader \<and> \<not> present svixSignatureHeader
         \<and> \<not> present standardSignatureHeader
      then Inl (JsError ''Missing webhook signature headers.'')
      else
        (case (if present openAiSignatureHeader
               then verify_openai E rawBody secret (the openAiSignatureHeader)
               else Inr False) of
           Inl e \<Rightarrow> Inl e
         | Inr v1 \<Rightarrow>
             (case (if \<not> v1 \<and> present svixSignatureHeader
                    then verify_svix E rawBody hs secret (the svixSignatureHeader)
                    else Inr v1) of
                Inl e \<Rightarrow> Inl e
              | Inr v2 \<Rightarrow>
                  (if \<not> v2 \<and> present standardSignatureHeader
                   then verify_standard E rawBody hs secret webhookIdHeader
                          (the standardSignatureHeader)
                   else Inr v2))))"

definition unwrapWebhookEvent :: "env \<Rightarrow> string \<Rightarrow> headers \<Rightarrow> string \<Rightarrow> exn + json" where
  "unwrapWebhookEvent E rawBody hs secret =
     (case payloadVerified E rawBody hs secret of
        Inl e \<Rightarrow> Inl e
      | Inr verified \<Rightarrow>
          if \<not> verified then Inl (JsError ''Webhook signature verification failed.'')
          else
            (case json_parse E rawBody of
               Inl m \<Rightarrow> Inl (JsError ''Invalid webhook payload.'')
             | Inr parsed \<Rightarrow> Inr parsed))"

section \<open>webhooks/openaiWebhook.js: the dispatcher\<close>

definition includes_str :: "string \<Rightarrow> string \<Rightarrow> bool" where
  "includes_str s p = list_ex (\<lambda>i. take (length p) (drop i s) = p) [0..<Suc (length s)]"

definition ensureAgentSignature :: "env \<Rightarrow> json option \<Rightarrow> json option \<Rightarrow> exn + json option" where
  "ensureAgentSignature E draft agentName =
     (if \<not> truthy_opt draft then Inr draft
      else
        (case or_else agentName (JStr []) of
           JStr name \<Rightarrow>
             let trimmedName = trim name;
                 desiredSignature = ''Best regards,'' @ [CHR 0x0A, CHR 0x0A] @ trimmedName
             in
             if trimmedName = [] then Inr draft
             else
               (case draft of
                  Some (JStr d) \<Rightarrow>
                    if includes_str d desiredSignature then Inr draft
                    else
                      (case replace_team_signature E d desiredSignature of
                         Some replaced \<Rightarrow> Inr (Some (JStr replaced))
                       | None \<Rightarrow>
                           Inr (Some (JStr (rev (dropWhile is_space (rev d))
                                            @ [CHR 0x0A, CHR 0x0A] @ desiredSignature))))
                | Some (JArr xs) \<Rightarrow>
                    if JStr desiredSignature \<in> set xs then Inr draft else Inl TypeError
                | _ \<Rightarrow> Inl TypeError)
         | _ \<Rightarrow> Inl TypeError))"

definition normaliseHeaders :: "(string \<times> hval) list \<Rightarrow> headers" where
  "normaliseHeaders hs = fold (\<lambda>(k, v) normalised. normalised(toLowerCase k \<mapsto> v)) hs Map.empty"

definition str_or :: "string option \<Rightarrow> string option \<Rightarrow> string option" where
  "str_or a b = (if present a then a else b)"

definition ensureWebhookSecret :: "env \<Rightarrow> string option" where
  "ensureWebhookSecret E = str_or (str_or (env_secret E) (process_secret E)) (stored_secret E)"

fun is_primitive :: "json \<Rightarrow> bool" where
  "is_primitive (JArr xs) = False"
| "is_primitive (JObj kvs) = False"
| "is_primitive v = True"

text \<open>The elements of \<open>new Set(xs)\<close> in insertion order: primitives are compared by value,
  arrays and objects by identity, so that none of them is a duplicate of another.\<close>

fun set_elements :: "json list \<Rightarrow> json list \<Rightarrow> json list" where
  "set_elements seen [] = []"
| "set_elements seen (x # xs) =
     (if is_primitive x \<and> x \<in> set seen then set_elements seen xs
      else x # set_elements (x # seen) xs)"

definition buildProcessedList :: "json option \<Rightarrow> string option \<Rightarrow> exn + json" where
  "buildProcessedList existing webhookId =
     (let ex = (case existing of None \<Rightarrow> JArr [] | Some v \<Rightarrow> v) in
      case webhookId of
        None \<Rightarrow> Inr ex
      | Some wid \<Rightarrow>
          if wid = [] then Inr ex
          else
            (case (case ex of
                     JArr xs \<Rightarrow> Inr (set_elements [] xs)
                   | JStr s \<Rightarrow> Inr (set_elements [] (map (\<lambda>c. JStr [c]) s))
                   | JNull \<Rightarrow> Inr []
                   | _ \<Rightarrow> Inl TypeError) of
               Inl e \<Rightarrow> Inl e
             | Inr elems \<Rightarrow>
                 Inr (JArr (if JStr wid \<in> set elems then elems else elems @ [JStr wid]))))"

definition eventKeyFor :: "json option \<Rightarrow> string \<Rightarrow> string" where
  "eventKeyFor jobType suffix =
     (if jobType = Some (JStr ''analysis'') then ''job-analysis'' else ''job-response'') @ ''-'' @ suffix"

definition extractOutputText :: "env \<Rightarrow> json \<Rightarrow> string option" where
  "extractOutputText E response =
     (case extractResponseText E response of Inl e \<Rightarrow> None | Inr t \<Rightarrow> Some t)"

text \<open>\<open>trackedJob.processedWebhookIds?.includes(webhookId)\<close>.\<close>

definition ledger_includes :: "json option \<Rightarrow> string \<Rightarrow> exn + bool" where
  "ledger_includes ledger wid =
     (case ledger of
        None \<Rightarrow> Inr False
      | Some JNull \<Rightarrow> Inr False
      | Some (JArr xs) \<Rightarrow> Inr (JStr wid \<in> set xs)
      | Some (JStr s) \<Rightarrow> Inr (includes_str s wid)
      | Some _ \<Rightarrow> Inl TypeError)"

record http_response =
  statusCode :: nat
  body :: string

record webhook_event =
  ev_headers :: "(string \<times> hval) list"
  ev_body :: "json option"

text \<open>Lines 687 to 716 of \<open>run\<close>: the result payload of a completed job.\<close>

definition shape_result :: "env \<Rightarrow> obj \<Rightarrow> string \<Rightarrow> exn + json" where
  "shape_result E trackedJob outputText =
     (if trackedJob ''jobType'' = Some (JStr ''analysis'')
      then
        (case parseAnalysisResponse E outputText of
           Inl e \<Rightarrow> Inl e
         | Inr parsed \<Rightarrow>
             (case normaliseRecommendationPlan (get_prop parsed ''recommendationPlan'') of
                Inl e \<Rightarrow> Inl e
              | Inr recommendationPlan \<Rightarrow>
                  (case enrichArticles (get_prop parsed ''knowledgeBaseArticles'')
                          (or_else (prop_opt (trackedJob ''auxiliaryData'') ''searchResults'')
                                   (JArr [])) of
                     Inl e \<Rightarrow> Inl e
                   | Inr knowledgeBaseArticles \<Rightarrow>
                       Inr (JObj (opt_fields
                         [(''rawText'', Some (JStr outputText)),
                          (''summary'', get_prop parsed ''summary''),
                          (''internalNote'', get_prop parsed ''internalNote''),
                          (''recommendationPlan'', Some recommendationPlan),
                          (''knowledgeBaseArticles'', Some knowledgeBaseArticles),
                          (''taskQueue'', Some (array_or_empty (get_prop parsed ''taskQueue''))),
                          (''toolSuggestions'', get_prop recommendationPlan ''toolSuggestions''),
                          (''caseStatus'', prop_opt (trackedJob ''auxiliaryData'') ''caseStatus'')])))))
      else
        (case parseFinalResponse E outputText of
           Inl e \<Rightarrow> Inl e
         | Inr parsed \<Rightarrow>
             (case ensureAgentSignature E (get_prop parsed ''emailDraft'')
                     (prop_opt (trackedJob ''auxiliaryData'') ''agentName'') of
                Inl e \<Rightarrow> Inl e
              | Inr emailDraft \<Rightarrow>
                  Inr (JObj (opt_fields
                    [(''rawText'', Some (JStr outputText)),
                     (''emailDraft'', emailDraft),
                     (''internalNote'', get_prop parsed ''internalNote''),
                     (''caseStatus'', prop_opt (trackedJob ''auxiliaryData'') ''caseStatus'')])))))"

definition ack :: "string \<Rightarrow> http_response" where
  "ack text = \<lparr>statusCode = 200, body = text\<rparr>"

text \<open>Lines 683 to 746 of \<open>run\<close>: the retrieved artifact decides the job's new state.\<close>

definition settle ::
  "env \<Rightarrow> json option \<Rightarrow> json option \<Rightarrow> string option \<Rightarrow> obj \<Rightarrow> json \<Rightarrow> world
     \<Rightarrow> (exn + http_response) \<times> world" where
  "settle E jobId eventType webhookId trackedJob responsePayload w =
     (let outputText = extractOutputText E responsePayload in
      case buildProcessedList (trackedJob ''processedWebhookIds'') webhookId of
        Inl e \<Rightarrow> (Inl e, w)
      | Inr processedWebhookIds \<Rightarrow>
          (case responsePayload of
             JNull \<Rightarrow> (Inl TypeError, w)
           | _ \<Rightarrow>
               let status = get_prop responsePayload ''status'' in
               if status = Some (JStr ''completed'') \<and> present outputText
               then
                 (case shape_result E trackedJob (the outputText) of
                    Inl e \<Rightarrow> (Inl e, w)
                  | Inr result \<Rightarrow>
                      (case updateJobRecord E jobId
                              (obj_of [(''status'', Some (JStr COMPLETED)),
                                       (''result'', Some result),
                                       (''error'', Some JNull),
                                       (''processedWebhookIds'', Some processedWebhookIds)]) w of
                         (updated, w1) \<Rightarrow>
                           (Inr (ack ''Ack: completed''),
                            publishAppEvent (eventKeyFor (updated ''jobType'') ''completed'') w1)))
               else
                 (let failureStatus = (if status = Some (JStr ''cancelled'') then CANCELLED else FAILED);
                      err = get_prop responsePayload ''error'';
                      failure = JObj (opt_fields
                        [(''message'', Some (or_else (js_or (prop_opt err ''message'') err)
                                                     (JStr ''Unknown failure''))),
                         (''details'', if truthy_opt (prop_opt err ''code'') then err else None),
                         (''status'', js_or status eventType)])
                  in
                  case updateJobRecord E jobId
                         (obj_of [(''status'', Some (JStr failureStatus)),
                                  (''error'', Some failure),
                                  (''processedWebhookIds'', Some processedWebhookIds)]) w of
                    (updated, w1) \<Rightarrow>
                      (Inr (ack ''Ack: failure''),
                       publishAppEvent
                         (eventKeyFor (updated ''jobType'')
                            (if failureStatus = CANCELLED then ''cancelled'' else ''failed'')) w1))))"

text \<open>Lines 638 to 681 of \<open>run\<close>: what happens to an event that passed verification.\<close>

definition dispatch :: "env \<Rightarrow> headers \<Rightarrow> json \<Rightarrow> world \<Rightarrow> (exn + http_response) \<times> world" where
  "dispatch E hs webhookEvent w =
     (let webhookId = normaliseHeaderValue (hs ''webhook-id'');
          jobId = prop_opt (prop_opt (Some webhookEvent) ''data'') ''id'';
          eventType = prop_opt (Some webhookEvent) ''type''
      in
      if \<not> truthy_opt jobId then (Inr (ack ''Ack: missing job id''), w)
      else
        (case getJobRecord jobId w of
           (None, w1) \<Rightarrow> (Inr (ack ''Ack: job not tracked''), w1)
         | (Some trackedJob, w1) \<Rightarrow>
             (case (if present webhookId
                    then ledger_includes (trackedJob ''processedWebhookIds'') (the webhookId)
                    else Inr False) of
                Inl e \<Rightarrow> (Inl e, w1)
              | Inr True \<Rightarrow> (Inr (ack ''Ack: duplicate''), w1)
              | Inr False \<Rightarrow>
                  (let w2 = log_effect (Retrieve (the jobId)) w1 in
                   case retrieveCompletion E (the jobId) of
                     Inl f \<Rightarrow>
                       (case buildProcessedList (trackedJob ''processedWebhookIds'') webhookId of
                          Inl e \<Rightarrow> (Inl e, w2)
                        | Inr processedWebhookIds \<Rightarrow>
                            (case updateJobRecord E jobId
                                    (obj_of
                                       [(''status'', Some (JStr FAILED)),
                                        (''error'', Some (JObj
                                           [(''reason'', JStr ''retrieve_failed''),
                                            (''message'', JStr (fail_message f)),
                                            (''stack'', JStr (fail_stack f))])),
                                        (''processedWebhookIds'', Some processedWebhookIds)]) w2 of
                               (updated, w3) \<Rightarrow>
                                 (Inr (ack ''Ack: retrieve failed''),
                                  publishAppEvent (eventKeyFor (trackedJob ''jobType'') ''failed'') w3)))
                   | Inr responsePayload \<Rightarrow>
                       settle E jobId eventType webhookId trackedJob responsePayload w2))))"

text \<open>The raw body: the event's body when it is a string, its serialisation otherwise.\<close>

definition rawBody_of :: "env \<Rightarrow> webhook_event \<Rightarrow> string" where
  "rawBody_of E event =
     (case ev_body event of
        Some (JStr s) \<Rightarrow> s
      | b \<Rightarrow> json_stringify E (or_else b (JObj [])))"

definition openaiWebhook_run :: "env \<Rightarrow> webhook_event \<Rightarrow> world \<Rightarrow> (exn + http_response) \<times> world" where
  "openaiWebhook_run E event w =
     (let hs = normaliseHeaders (ev_headers event);
          rawBody = rawBody_of E event
      in
      case ensureWebhookSecret E of
        None \<Rightarrow> (Inr \<lparr>statusCode = 401, body = ''Webhook secret not configured''\<rparr>, w)
      | Some webhookSecret \<Rightarrow>
          if webhookSecret = []
          then (Inr \<lparr>statusCode = 401, body = ''Webhook secret not configured''\<rparr>, w)
          else
            (case unwrapWebhookEvent E rawBody hs webhookSecret of
               Inl e \<Rightarrow> (Inr \<lparr>statusCode = 400, body = ''Invalid webhook signature''\<rparr>, w)
             | Inr webhookEvent \<Rightarrow> dispatch E hs webhookEvent w))"

section \<open>Names for the statements\<close>

text \<open>The storage key of a stored job, and the values that \<open>normaliseSearchResult\<close> reads
  for the three properties of a normalised search result.\<close>

definition job_key :: "obj \<Rightarrow> string" where
  "job_key j = buildJobKey (j ''jobId'')"




text \<open>The properties of a job record that the dispatcher writes.\<close>

definition webhook_fields :: "string set" where
  "webhook_fields = {''status'', ''result'', ''error'', ''processedWebhookIds''}"

text \<open>A property of the record stored under a key.\<close>

definition stored_property :: "world \<Rightarrow> string \<Rightarrow> string \<Rightarrow> json option" where
  "stored_property w key p = (case kv w key of None \<Rightarrow> None | Some r \<Rightarrow> r p)"

text \<open>The event that \<open>run\<close> hands to the dispatcher: none when no secret is configured or
  when \<open>unwrapWebhookEvent\<close> throws. The job id and the delivery id that \<open>run\<close> reads.\<close>

definition accepted_event :: "env \<Rightarrow> webhook_event \<Rightarrow> json option" where
  "accepted_event E event =
     (case ensureWebhookSecret E of
        None \<Rightarrow> None
      | Some secret \<Rightarrow>
          if secret = [] then None
          else (case unwrapWebhookEvent E (rawBody_of E event)
                       (normaliseHeaders (ev_headers event)) secret of
                  Inl e \<Rightarrow> None
                | Inr webhookEvent \<Rightarrow> Some webhookEvent))"

definition job_id_of :: "json \<Rightarrow> json option" where
  "job_id_of webhookEvent = prop_opt (prop_opt (Some webhookEvent) ''data'') ''id''"

definition delivery_id :: "webhook_event \<Rightarrow> string option" where
  "delivery_id event = normaliseHeaderValue (normaliseHeaders (ev_headers event) ''webhook-id'')"

text \<open>
  The three schemes in the spec's words. A candidate signature matches a digest when it
  is not empty and its base64 decoding is the digest, or its base64 decoding has another
  length than the digest and its hexadecimal decoding is the digest. A scheme is
  well-formed when its headers parse, its timestamp is a finite number within the
  tolerance of the clock, and (broker and standard scheme) the decoded secret is not empty.
  A scheme accepts when it is present and well-formed and one of its candidates matches
  the digest of its signed string; the broker scheme decodes candidates as base64 only.
\<close>

definition within_tolerance :: "env \<Rightarrow> jsnum \<Rightarrow> bool" where
  "within_tolerance E n =
     (case n of Finite t \<Rightarrow> \<bar>nowSeconds E - t\<bar> \<le> SIGNATURE_TOLERANCE_SECONDS | _ \<Rightarrow> False)"

definition candidate_matches :: "env \<Rightarrow> string \<Rightarrow> string \<Rightarrow> bool" where
  "candidate_matches E digest signature =
     (signature \<noteq> []
      \<and> (base64_decode E signature = digest
         \<or> (length (base64_decode E signature) \<noteq> length digest \<and> hex_decode E signature = digest)))"

definition native_header :: "headers \<Rightarrow> string option" where
  "native_header hs = normaliseSignatureHeader hs [''x-openai-signature'', ''openai-signature'']"

definition broker_header :: "headers \<Rightarrow> string option" where
  "broker_header hs = normaliseSignatureHeader hs [''svix-signature'']"

definition standard_header :: "headers \<Rightarrow> string option" where
  "standard_header hs = normaliseSignatureHeader hs [''webhook-signature'']"

definition broker_timestamp :: "headers \<Rightarrow> hval option" where
  "broker_timestamp hs =
     hval_or (hs ''svix-timestamp'') (hval_or (hs ''x-openai-timestamp'') (hs ''openai-timestamp''))"

definition standard_timestamp :: "headers \<Rightarrow> string option" where
  "standard_timestamp hs =
     normaliseSignatureHeader hs
       [''webhook-timestamp'', ''svix-timestamp'', ''x-openai-timestamp'', ''openai-timestamp'']"

definition native_wellformed :: "env \<Rightarrow> headers \<Rightarrow> bool" where
  "native_wellformed E hs =
     (case native_header hs of
        None \<Rightarrow> False
      | Some h \<Rightarrow>
          (case parseOpenAiSignature E h of
             None \<Rightarrow> False
           | Some (timestamp, signatures) \<Rightarrow> within_tolerance E timestamp))"

definition native_accepts :: "env \<Rightarrow> string \<Rightarrow> headers \<Rightarrow> string \<Rightarrow> bool" where
  "native_accepts E rawBody hs secret =
     (present (native_header hs) \<and> native_wellformed E hs
      \<and> (case native_header hs of
            None \<Rightarrow> False
          | Some h \<Rightarrow>
              (case parseOpenAiSignature E h of
                 None \<Rightarrow> False
               | Some (timestamp, signatures) \<Rightarrow>
                   list_ex (candidate_matches E
                              (hmac_sha256 E secret (num_str timestamp @ ''.'' @ rawBody)))
                           signatures)))"

definition broker_wellformed :: "env \<Rightarrow> headers \<Rightarrow> string \<Rightarrow> bool" where
  "broker_wellformed E hs secret =
     (case broker_header hs of
        None \<Rightarrow> False
      | Some h \<Rightarrow>
          parseSvixSignature h \<noteq> None
          \<and> hval_truthy (broker_timestamp hs)
          \<and> present (normaliseHeaderValue (hs ''svix-id''))
          \<and> (case broker_timestamp hs of
                None \<Rightarrow> False
              | Some th \<Rightarrow> within_tolerance E (to_number E (hval_str th)))
          \<and> base64_decode E (strip_whsec secret) \<noteq> [])"

definition broker_accepts :: "env \<Rightarrow> string \<Rightarrow> headers \<Rightarrow> string \<Rightarrow> bool" where
  "broker_accepts E rawBody hs secret =
     (present (broker_header hs) \<and> broker_wellformed E hs secret
      \<and> (case (broker_header hs, broker_timestamp hs, normaliseHeaderValue (hs ''svix-id'')) of
            (Some h, Some th, Some svixId) \<Rightarrow>
              (case parseSvixSignature h of
                 None \<Rightarrow> False
               | Some signatures \<Rightarrow>
                   list_ex (\<lambda>signature.
                              base64_decode E signature
                              = hmac_sha256 E (base64_decode E (strip_whsec secret))
                                  (svixId @ ''.'' @ hval_str th @ ''.'' @ rawBody))
                           signatures)
          | _ \<Rightarrow> False))"

definition standard_wellformed :: "env \<Rightarrow> headers \<Rightarrow> string \<Rightarrow> bool" where
  "standard_wellformed E hs secret =
     (case standard_header hs of
        None \<Rightarrow> False
      | Some h \<Rightarrow>
          parseStandardSignature h \<noteq> None
          \<and> present (standard_timestamp hs)
          \<and> present (normaliseSignatureHeader hs [''webhook-id''])
          \<and> (case standard_timestamp hs of
                None \<Rightarrow> False
              | Some th \<Rightarrow> within_tolerance E (to_number E th))
          \<and> secret \<noteq> [] \<and> base64_decode E (strip_whsec secret) \<noteq> [])"

definition standard_accepts :: "env \<Rightarrow> string \<Rightarrow> headers \<Rightarrow> string \<Rightarrow> bool" where
  "standard_accepts E rawBody hs secret =
     (present (standard_header hs) \<and> standard_wellformed E hs secret
      \<and> (case (standard_header hs, standard_timestamp hs,
                normaliseSignatureHeader hs [''webhook-id'']) of
            (Some h, Some th, Some webhookId) \<Rightarrow>
              (case parseStandardSignature h of
                 None \<Rightarrow> False
               | Some signatures \<Rightarrow>
                   list_ex (candidate_matches E
                              (hmac_sha256 E (base64_decode E (strip_whsec secret))
                                 (webhookId @ ''.'' @ th @ ''.'' @ rawBody)))
                           signatures)
          | _ \<Rightarrow> False))"

section \<open>A concrete environment and concrete callbacks\<close>

text \<open>
  The theorems below hold for every environment. To run the handlers on concrete inputs,
  this section fixes one: decimal numbers, the hexadecimal and base64 decoders on
  well-formed input, a table for the JSON texts that occur, and a digest of three bytes
  taken from the key and the message, standing in for HMAC-SHA256. The clock reads 1000 seconds.
\<close>

definition demo_number :: "string \<Rightarrow> jsnum" where
  "demo_number s =
     (if s = [] then Finite 0
      else if list_all (\<lambda>c. c \<in> set ''0123456789'') s
      then Finite (int (fold (\<lambda>c n. 10 * n + the (map_of (zip ''0123456789'' [0..<10]) c)) s 0))
      else NaN)"

definition hex_value :: "char \<Rightarrow> nat option" where
  "hex_value c = map_of (zip ''0123456789abcdef'' [0..<16]) c"

fun demo_hex :: "string \<Rightarrow> string" where
  "demo_hex (a # b # rest) =
     (case (hex_value a, hex_value b) of
        (Some x, Some y) \<Rightarrow> char_of (16 * x + y) # demo_hex rest
      | _ \<Rightarrow> [])"
| "demo_hex rest = []"

definition base64_value :: "char \<Rightarrow> nat option" where
  "base64_value c =
     map_of (zip ''ABCDEFGHIJKLMNOPQRSTUVWXYZabcdefghijklmnopqrstuvwxyz0123456789+/'' [0..<64]) c"

fun base64_bytes :: "nat list \<Rightarrow> string" where
  "base64_bytes (a # b # c # d # rest) =
     char_of (a * 4 + b div 16) # char_of ((b mod 16) * 16 + c div 4) # char_of ((c mod 4) * 64 + d)
       # base64_bytes rest"
| "base64_bytes [a, b, c] = [char_of (a * 4 + b div 16), char_of ((b mod 16) * 16 + c div 4)]"
| "base64_bytes [a, b] = [char_of (a * 4 + b div 16)]"
| "base64_bytes rest = []"

definition demo_base64 :: "string \<Rightarrow> string" where
  "demo_base64 s =
     base64_bytes (map (\<lambda>c. the (base64_value c)) (takeWhile (\<lambda>c. base64_value c \<noteq> None) s))"

definition demo_mac :: "string \<Rightarrow> string \<Rightarrow> string" where
  "demo_mac key msg = take 1 (rev key) @ take 1 (drop 3 msg) @ take 1 (rev msg)"

definition quoted :: "string \<Rightarrow> string" where
  "quoted s = [CHR 0x22] @ s @ [CHR 0x22]"

text \<open>The body of a callback for job \<open>resp_1\<close> and the event it parses to.\<close>

definition demo_body :: string where
  "demo_body = ''{'' @ quoted ''type'' @ '':'' @ quoted ''response.completed'' @ '',''
               @ quoted ''data'' @ '':{'' @ quoted ''id'' @ '':'' @ quoted ''resp_1'' @ ''}}''"

definition demo_event :: json where
  "demo_event = JObj [(''type'', JStr ''response.completed''),
                      (''data'', JObj [(''id'', JStr ''resp_1'')])]"

definition demo_json_parse :: "string \<Rightarrow> string + json" where
  "demo_json_parse s =
     (if s = demo_body then Inr demo_event
      else if s = ''null'' then Inr JNull
      else if s = ''{}'' then Inr (JObj [])
      else Inl ''Unexpected token'')"

definition demo_env :: env where
  "demo_env =
     \<lparr>now_ms = 1000000,
      to_iso = show_int,
      delete_fails = (\<lambda>key. False),
      retrieveCompletion = (\<lambda>jobId. Inr (JObj [(''status'', JStr ''failed'')])),
      cancelCompletion = (\<lambda>jobId. Inr (JObj [(''status'', JStr ''cancelled'')])),
      env_secret = Some ''whsec_a2V5'',
      process_secret = None,
      stored_secret = None,
      hmac_sha256 = demo_mac,
      base64_decode = demo_base64,
      hex_decode = demo_hex,
      to_number = demo_number,
      json_parse = demo_json_parse,
      json_stringify = (\<lambda>v. ''{}''),
      translate_glossary = (\<lambda>s. s),
      replace_team_signature = (\<lambda>draft desired. None)\<rparr>"

text \<open>A settled job with one applied delivery, and a store that tracks it.\<close>

definition demo_job :: obj where
  "demo_job = obj_of
     [(''jobId'', Some (JStr ''resp_1'')),
      (''jobType'', Some (JStr ''response'')),
      (''status'', Some (JStr ''completed'')),
      (''auxiliaryData'', Some (JObj [(''caseStatus'', JStr ''open'')])),
      (''result'', Some (JObj [(''rawText'', JStr ''done'')])),
      (''error'', Some JNull),
      (''processedWebhookIds'', Some (JArr [JStr ''wh_1'']))]"

definition demo_world :: world where
  "demo_world = \<lparr>kv = [''async-job:resp_1'' \<mapsto> demo_job], trace = []\<rparr>"

text \<open>A second, queued job, and a store that tracks both.\<close>

definition queued_job :: obj where
  "queued_job = obj_of
     [(''jobId'', Some (JStr ''resp_2'')),
      (''jobType'', Some (JStr ''response'')),
      (''status'', Some (JStr ''queued'')),
      (''result'', Some JNull),
      (''error'', Some JNull),
      (''processedWebhookIds'', Some (JArr []))]"

definition two_jobs :: world where
  "two_jobs = \<lparr>kv = [''async-job:resp_1'' \<mapsto> demo_job, ''async-job:resp_2'' \<mapsto> queued_job],
               trace = []\<rparr>"



text \<open>The job \<open>resp_1\<close> while it is still queued.\<close>

definition pending_job :: obj where
  "pending_job = obj_of
     [(''jobId'', Some (JStr ''resp_1'')),
      (''jobType'', Some (JStr ''response'')),
      (''status'', Some (JStr ''queued'')),
      (''result'', Some JNull),
      (''error'', Some JNull),
      (''processedWebhookIds'', Some (JArr []))]"

definition pending_world :: world where
  "pending_world = \<lparr>kv = [''async-job:resp_1'' \<mapsto> pending_job], trace = []\<rparr>"

text \<open>The provider reports the job completed and returns no output.\<close>

definition completed_without_output :: env where
  "completed_without_output =
     demo_env\<lparr>retrieveCompletion :=
                (\<lambda>jobId. Inr (JObj [(''status'', JStr ''completed''), (''output'', JArr [])]))\<rparr>"

text \<open>
  Callbacks for \<open>resp_1\<close>, all stamped with the time of the clock. One is signed under the
  provider-native scheme and carries no delivery id. Two are signed under the standard
  scheme, with the delivery ids \<open>wh_1\<close> and \<open>wh_2\<close>. Two are signed under the broker scheme:
  one carries the digest in base64, the other carries the same digest in hexadecimal.
\<close>

definition native_event :: webhook_event where
  "native_event =
     \<lparr>ev_headers = [(''OpenAI-Signature'', HStr ''t=1000,v1=NTB9'')],
      ev_body = Some (JStr demo_body)\<rparr>"

definition replay_event :: webhook_event where
  "replay_event =
     \<lparr>ev_headers = [(''Webhook-Id'', HStr ''wh_1''),
                    (''Webhook-Timestamp'', HStr ''1000''),
                    (''Webhook-Signature'', HStr ''v1,eTF9'')],
      ev_body = Some (JStr demo_body)\<rparr>"

definition second_event :: webhook_event where
  "second_event =
     \<lparr>ev_headers = [(''Webhook-Id'', HStr ''wh_2''),
                    (''Webhook-Timestamp'', HStr ''1000''),
                    (''Webhook-Signature'', HStr ''v1,eTJ9'')],
      ev_body = Some (JStr demo_body)\<rparr>"

definition broker_event :: webhook_event where
  "broker_event =
     \<lparr>ev_headers = [(''svix-id'', HStr ''msg_1''),
                    (''svix-timestamp'', HStr ''1000''),
                    (''svix-signature'', HStr ''v1=eV99'')],
      ev_body = Some (JStr demo_body)\<rparr>"

definition broker_hex_event :: webhook_event where
  "broker_hex_event =
     \<lparr>ev_headers = [(''svix-id'', HStr ''msg_1''),
                    (''svix-timestamp'', HStr ''1000''),
                    (''svix-signature'', HStr ''v1=795f7d'')],
      ev_body = Some (JStr demo_body)\<rparr>"

section \<open>Properties of the store\<close>

subsection \<open>Auxiliary facts\<close>

lemma log_effect_kv [simp]: "kv (log_effect e w) = kv w"
  by (simp add: log_effect_def)

lemma log_effect_trace [simp]: "trace (log_effect e w) = trace w @ [e]"
  by (simp add: log_effect_def)

lemma publishAppEvent_kv [simp]: "kv (publishAppEvent k w) = kv w"
  by (simp add: publishAppEvent_def)

lemma publishAppEvent_trace [simp]: "trace (publishAppEvent k w) = trace w @ [Publish k]"
  by (simp add: publishAppEvent_def)















lemma demo_key: "buildJobKey (Some (JStr ''resp_1'')) = ''async-job:resp_1''"
  by (simp add: buildJobKey_def JOB_KEY_PREFIX_def to_str_opt_def)



subsection \<open>The update contract\<close>



section \<open>Cancellation and status query\<close>

text \<open>
  Claim C6. For every job whose stored status is \<open>completed\<close>, \<open>failed\<close> or \<open>cancelled\<close>, a
  cancellation request answers with success, the stored record and the message that the
  job is already settled; the only effect is the read of the record, so the provider's
  cancellation call is not made and the store (the record's \<open>error\<close> included) is
  unchanged. A second request therefore gives the same answer again.
\<close>

theorem cancel_settled_job_is_noop:
  assumes "truthy_opt jobId"
      and "kv w (buildJobKey jobId) = Some record"
      and "record ''status'' \<in> {Some (JStr ''completed''), Some (JStr ''failed''), Some (JStr ''cancelled'')}"
  shows "fst (cancelJob E jobId w) =
           Inr \<lparr>success = True, job = Some record, error_text = None,
                message_text = Some (''Job already settled with status ''
                                     @ to_str_opt (record ''status'') @ ''.'')\<rparr>
         \<and> kv (snd (cancelJob E jobId w)) = kv w
         \<and> trace (snd (cancelJob E jobId w)) = trace w @ [StorageGet (buildJobKey jobId)]
         \<and> cancelJob E jobId (snd (cancelJob E jobId w))
             = (fst (cancelJob E jobId w),
                log_effect (StorageGet (buildJobKey jobId)) (snd (cancelJob E jobId w)))"
proof -
  have fin: "is_final (record ''status'')"
    using assms(3)
    by (auto simp: is_final_def FINAL_STATUSES_def COMPLETED_def FAILED_def CANCELLED_def)
  have step: "\<And>w0. kv w0 (buildJobKey jobId) = Some record \<Longrightarrow>
     cancelJob E jobId w0 =
       (Inr \<lparr>success = True, job = Some record, error_text = None,
             message_text = Some (''Job already settled with status ''
                                  @ to_str_opt (record ''status'') @ ''.'')\<rparr>,
        log_effect (StorageGet (buildJobKey jobId)) w0)"
    using assms(1) fin by (simp add: cancelJob_def getJobRecord_def)
  show ?thesis using assms(2) by (simp add: step)
qed

theorem cancel_settled_job_is_noop_witness:
  "truthy_opt (Some (JStr ''resp_1''))
   \<and> kv demo_world (buildJobKey (Some (JStr ''resp_1''))) = Some demo_job
   \<and> demo_job ''status'' = Some (JStr ''completed'')
   \<and> fst (cancelJob demo_env (Some (JStr ''resp_1'')) demo_world) =
       Inr \<lparr>success = True, job = Some demo_job, error_text = None,
            message_text = Some ''Job already settled with status completed.''\<rparr>
   \<and> kv (snd (cancelJob demo_env (Some (JStr ''resp_1'')) demo_world)) = kv demo_world
   \<and> trace (snd (cancelJob demo_env (Some (JStr ''resp_1'')) demo_world))
       = [StorageGet ''async-job:resp_1'']"
proof -
  have h1: "truthy_opt (Some (JStr ''resp_1''))" by (simp add: truthy_opt_def)
  have h2: "kv demo_world (buildJobKey (Some (JStr ''resp_1''))) = Some demo_job"
    by (simp add: demo_key demo_world_def)
  have st: "demo_job ''status'' = Some (JStr ''completed'')"
    by (simp add: demo_job_def obj_of_def)
  then have h3: "demo_job ''status''
      \<in> {Some (JStr ''completed''), Some (JStr ''failed''), Some (JStr ''cancelled'')}"
    by simp
  show ?thesis
    using cancel_settled_job_is_noop [OF h1 h2 h3, of demo_env] h1 h2 st
    by (simp add: demo_key to_str_opt_def demo_world_def)
qed

text \<open>
  Claim C5. Status Query strips the ledger from the record it returns, and so does
  Cancellation when it performs the cancellation. The short-circuit of Cancellation for a
  settled job does not: on the store that tracks the completed job \<open>resp_1\<close> with ledger
  \<open>[wh_1]\<close>, the request returns the stored record with its \<open>processedWebhookIds\<close>.
\<close>

theorem cancel_settled_job_returns_ledger:
  "fst (cancelJob E (Some (JStr ''resp_1'')) demo_world) =
     Inr \<lparr>success = True, job = Some demo_job, error_text = None,
          message_text = Some ''Job already settled with status completed.''\<rparr>
   \<and> demo_job ''processedWebhookIds'' = Some (JArr [JStr ''wh_1''])"
  by (simp add: cancelJob_def getJobRecord_def demo_key demo_world_def truthy_opt_def is_final_def
        FINAL_STATUSES_def COMPLETED_def demo_job_def obj_of_def to_str_opt_def)

lemma getJobStatus_strips_ledger:
  "fst (getJobStatus jobId w) = \<lparr>success = True, job = Some j, error_text = e, message_text = m\<rparr>
   \<Longrightarrow> j ''processedWebhookIds'' = None"
  by (auto simp: getJobStatus_def getJobRecord_def failed_reply_def split: if_splits option.splits)

lemma cancelJob_strips_ledger_when_it_cancels:
  assumes "truthy_opt jobId" and "kv w (buildJobKey jobId) = Some record"
      and "\<not> is_final (record ''status'')"
      and "fst (cancelJob E jobId w) = Inr r"
  shows "\<exists>j. job r = Some j \<and> j ''processedWebhookIds'' = None"
  using assms
  by (auto simp: cancelJob_def getJobRecord_def Let_def split: sum.splits prod.splits)

section \<open>Retention sweep\<close>

lemma delete_each_result:
  "delete_each E jobs n w = (r, w') \<Longrightarrow>
     r = (if \<forall>j\<in>set jobs. \<not> delete_fails E (job_key j) then Inr (n + length jobs) else Inl StorageError)
     \<and> kv w' = (\<lambda>k. if k \<in> job_key ` set (takeWhile (\<lambda>j. \<not> delete_fails E (job_key j)) jobs)
                     then None else kv w k)"
proof (induction jobs arbitrary: n w)
  case Nil
  then show ?case by simp
next
  case (Cons j jobs)
  show ?case
  proof (cases "delete_fails E (job_key j)")
    case True
    with Cons.prems show ?thesis
      by (auto simp: deleteJobRecord_def job_key_def Let_def)
  next
    case False
    let ?w1 = "(log_effect (StorageDelete (job_key j)) w)\<lparr>kv := (kv w)(job_key j := None)\<rparr>"
    from False Cons.prems have rec: "delete_each E jobs (n + 1) ?w1 = (r, w')"
      by (simp add: deleteJobRecord_def job_key_def Let_def)
    from Cons.IH [OF rec] False show ?thesis
      by (auto simp: fun_eq_iff)
  qed
qed

lemma two_jobs_keys:
  "buildJobKey (demo_job ''jobId'') = ''async-job:resp_1''"
  "buildJobKey (queued_job ''jobId'') = ''async-job:resp_2''"
  by (simp_all add: buildJobKey_def JOB_KEY_PREFIX_def to_str_opt_def demo_job_def queued_job_def obj_of_def)

text \<open>
  Claim C7, as the code has it. The sweep deletes the expired jobs in the order of the list.
  When the storage rejects none of the deletes, the run returns success with \<open>pruned\<close> equal
  to the number of expired jobs. When the storage rejects a delete, the run stops at that
  job and fails with the storage's error: the jobs before it have been deleted, the jobs
  from it on are still stored, and no count is returned.
\<close>

theorem sweep_stops_at_first_rejected_delete:
  "fst (cleanupJobs_run E expiredJobs w) =
     (if \<forall>j\<in>set expiredJobs. \<not> delete_fails E (buildJobKey (j ''jobId''))
      then Inr \<lparr>sweep_success = True, pruned = length expiredJobs,
                sweep_message = (if expiredJobs = [] then ''No expired jobs to delete.''
                                 else ''Removed '' @ show_nat (length expiredJobs) @ '' expired job''
                                      @ (if length expiredJobs = 1 then [] else ''s'')
                                      @ '' from storage.'')\<rparr>
      else Inl StorageError)
   \<and> kv (snd (cleanupJobs_run E expiredJobs w)) =
       (\<lambda>k. if k \<in> set (map (\<lambda>j. buildJobKey (j ''jobId''))
                              (takeWhile (\<lambda>j. \<not> delete_fails E (buildJobKey (j ''jobId'')))
                                 expiredJobs))
            then None else kv w k)"
proof (cases "expiredJobs = []")
  case True
  then show ?thesis by (simp add: cleanupJobs_run_def)
next
  case False
  obtain r w' where d: "delete_each E expiredJobs 0 w = (r, w')"
    by (cases "delete_each E expiredJobs 0 w")
  from delete_each_result [OF d] False d show ?thesis
    by (auto simp: cleanupJobs_run_def job_key_def)
qed

theorem sweep_stops_at_first_rejected_delete_witness:
  "\<not> delete_fails demo_env (buildJobKey (demo_job ''jobId''))
   \<and> \<not> delete_fails demo_env (buildJobKey (queued_job ''jobId''))
   \<and> fst (cleanupJobs_run demo_env [demo_job, queued_job] two_jobs) =
       Inr \<lparr>sweep_success = True, pruned = 2,
            sweep_message = ''Removed 2 expired jobs from storage.''\<rparr>
   \<and> kv (snd (cleanupJobs_run demo_env [demo_job, queued_job] two_jobs)) ''async-job:resp_1'' = None
   \<and> kv (snd (cleanupJobs_run demo_env [demo_job, queued_job] two_jobs)) ''async-job:resp_2'' = None"
proof -
  let ?ok = "\<lambda>j. \<not> delete_fails demo_env (buildJobKey (j ''jobId''))"
  have h: "?ok demo_job" "?ok queued_job"
    by (simp_all add: demo_env_def)
  note c = sweep_stops_at_first_rejected_delete [of demo_env "[demo_job, queued_job]" two_jobs]
  have r: "fst (cleanupJobs_run demo_env [demo_job, queued_job] two_jobs) =
       Inr \<lparr>sweep_success = True, pruned = 2,
            sweep_message = ''Removed 2 expired jobs from storage.''\<rparr>"
    using c [THEN conjunct1] h by (simp add: show_nat.simps)
  have keys: "map (\<lambda>j. buildJobKey (j ''jobId'')) (takeWhile ?ok [demo_job, queued_job])
              = [''async-job:resp_1'', ''async-job:resp_2'']"
    using h by (simp add: two_jobs_keys)
  have k: "kv (snd (cleanupJobs_run demo_env [demo_job, queued_job] two_jobs)) =
       (\<lambda>k. if k \<in> set [''async-job:resp_1'', ''async-job:resp_2''] then None else kv two_jobs k)"
    using c [THEN conjunct2] by (simp only: keys)
  show ?thesis using h r by (simp add: k)
qed

text \<open>
  Claim C7 as stated fails: with the jobs \<open>resp_1\<close> and \<open>resp_2\<close> expired and the delete of
  \<open>resp_1\<close> rejected, the run fails as a whole and \<open>resp_2\<close> is not deleted.
\<close>

theorem sweep_fails_on_rejected_delete:
  "fst (cleanupJobs_run (demo_env\<lparr>delete_fails := (\<lambda>key. key = ''async-job:resp_1'')\<rparr>)
          [demo_job, queued_job] two_jobs) = Inl StorageError
   \<and> kv (snd (cleanupJobs_run (demo_env\<lparr>delete_fails := (\<lambda>key. key = ''async-job:resp_1'')\<rparr>)
                [demo_job, queued_job] two_jobs)) ''async-job:resp_2'' = Some queued_job"
  by (simp add: cleanupJobs_run_def deleteJobRecord_def two_jobs_keys two_jobs_def Let_def)

section \<open>Job creation\<close>


lemma truncate_length:
  "truncate_js v n = JStr s \<Longrightarrow> length s \<le> n + length truncation_marker"
  by (auto simp: truncate_js_def split: json.splits if_splits)










section \<open>The webhook dispatcher\<close>

subsection \<open>The branches of the handler\<close>

lemma run_without_secret:
  "\<not> present (ensureWebhookSecret E) \<Longrightarrow>
   openaiWebhook_run E event w =
     (Inr \<lparr>statusCode = 401, body = ''Webhook secret not configured''\<rparr>, w)"
  by (auto simp: openaiWebhook_run_def present_def Let_def split: option.splits)

lemma run_rejected:
  "ensureWebhookSecret E = Some secret \<Longrightarrow> secret \<noteq> [] \<Longrightarrow>
   unwrapWebhookEvent E (rawBody_of E event) (normaliseHeaders (ev_headers event)) secret = Inl e \<Longrightarrow>
   openaiWebhook_run E event w =
     (Inr \<lparr>statusCode = 400, body = ''Invalid webhook signature''\<rparr>, w)"
  by (simp add: openaiWebhook_run_def Let_def)

lemma run_accepted:
  "ensureWebhookSecret E = Some secret \<Longrightarrow> secret \<noteq> [] \<Longrightarrow>
   unwrapWebhookEvent E (rawBody_of E event) (normaliseHeaders (ev_headers event)) secret
     = Inr webhookEvent \<Longrightarrow>
   openaiWebhook_run E event w = dispatch E (normaliseHeaders (ev_headers event)) webhookEvent w"
  by (simp add: openaiWebhook_run_def Let_def)

lemma settle_outcome:
  assumes "settle E jobId eventType webhookId trackedJob payload w = (r, w')"
  shows "(\<exists>e. r = Inl e \<and> w' = w)
       \<or> (\<exists>text updates key processed.
             r = Inr (ack text)
           \<and> w' = publishAppEvent key (snd (updateJobRecord E jobId updates w))
           \<and> buildProcessedList (trackedJob ''processedWebhookIds'') webhookId = Inr processed
           \<and> updates ''processedWebhookIds'' = Some processed
           \<and> is_final (updates ''status'')
           \<and> (\<forall>p. p \<notin> webhook_fields \<longrightarrow> updates p = None))"
proof (cases "buildProcessedList (trackedJob ''processedWebhookIds'') webhookId")
  case (Inl e)
  with assms show ?thesis by (auto simp: settle_def Let_def)
next
  case (Inr processed)
  show ?thesis
  proof (cases "payload = JNull")
    case True
    with assms Inr show ?thesis by (auto simp: settle_def Let_def)
  next
    case False
    let ?status = "get_prop payload ''status''"
    show ?thesis
    proof (cases "?status = Some (JStr ''completed'') \<and> present (extractOutputText E payload)")
      case True
      show ?thesis
      proof (cases "shape_result E trackedJob (the (extractOutputText E payload))")
        case (Inl e)
        with assms Inr False True show ?thesis
          by (cases payload) (auto simp: settle_def Let_def)
      next
        case (Inr result)
        let ?u = "obj_of [(''status'', Some (JStr COMPLETED)), (''result'', Some result),
                          (''error'', Some JNull), (''processedWebhookIds'', Some processed)]"
        have u: "?u ''processedWebhookIds'' = Some processed" "is_final (?u ''status'')"
                "\<forall>p. p \<notin> webhook_fields \<longrightarrow> ?u p = None"
          by (simp_all add: obj_of_def is_final_def FINAL_STATUSES_def webhook_fields_def)
        from assms \<open>buildProcessedList _ _ = Inr processed\<close> False True Inr
        have "r = Inr (ack ''Ack: completed'')
            \<and> w' = publishAppEvent (eventKeyFor (fst (updateJobRecord E jobId ?u w) ''jobType'') ''completed'')
                      (snd (updateJobRecord E jobId ?u w))"
          by (cases payload) (auto simp: settle_def Let_def split: prod.splits)
        with u \<open>buildProcessedList _ _ = Inr processed\<close> show ?thesis by blast
      qed
    next
      case nc: False
      let ?fs = "if ?status = Some (JStr ''cancelled'') then CANCELLED else FAILED"
      let ?err = "get_prop payload ''error''"
      let ?u = "obj_of [(''status'', Some (JStr ?fs)),
                        (''error'', Some (JObj (opt_fields
                           [(''message'', Some (or_else (js_or (prop_opt ?err ''message'') ?err)
                                                        (JStr ''Unknown failure''))),
                            (''details'', if truthy_opt (prop_opt ?err ''code'') then ?err else None),
                            (''status'', js_or ?status eventType)]))),
                        (''processedWebhookIds'', Some processed)]"
      have u: "?u ''processedWebhookIds'' = Some processed" "is_final (?u ''status'')"
              "\<forall>p. p \<notin> webhook_fields \<longrightarrow> ?u p = None"
        by (simp_all add: obj_of_def is_final_def FINAL_STATUSES_def webhook_fields_def)
      from assms Inr False nc
      have "r = Inr (ack ''Ack: failure'')
          \<and> w' = publishAppEvent (eventKeyFor (fst (updateJobRecord E jobId ?u w) ''jobType'')
                                     (if ?fs = CANCELLED then ''cancelled'' else ''failed''))
                    (snd (updateJobRecord E jobId ?u w))"
        by (cases payload) (auto simp: settle_def Let_def split: prod.splits)
      with u Inr show ?thesis by blast
    qed
  qed
qed

lemma getJobRecord_eq:
  "getJobRecord jobId w = (kv w (buildJobKey jobId), log_effect (StorageGet (buildJobKey jobId)) w)"
  by (simp add: getJobRecord_def)

lemma dispatch_missing_job_id:
  "\<not> truthy_opt (prop_opt (prop_opt (Some webhookEvent) ''data'') ''id'') \<Longrightarrow>
   dispatch E hs webhookEvent w = (Inr (ack ''Ack: missing job id''), w)"
  by (simp add: dispatch_def Let_def)

lemma dispatch_untracked:
  assumes "prop_opt (prop_opt (Some webhookEvent) ''data'') ''id'' = Some j" "truthy j"
      and "kv w (buildJobKey (Some j)) = None"
  shows "dispatch E hs webhookEvent w
         = (Inr (ack ''Ack: job not tracked''), log_effect (StorageGet (buildJobKey (Some j))) w)"
  using assms by (simp add: dispatch_def Let_def getJobRecord_eq truthy_opt_def)

lemma dispatch_duplicate:
  assumes "prop_opt (prop_opt (Some webhookEvent) ''data'') ''id'' = Some j" "truthy j"
      and "kv w (buildJobKey (Some j)) = Some trackedJob"
      and "normaliseHeaderValue (hs ''webhook-id'') = Some wid" "wid \<noteq> []"
      and "trackedJob ''processedWebhookIds'' = Some (JArr ledger)" "JStr wid \<in> set ledger"
  shows "dispatch E hs webhookEvent w
         = (Inr (ack ''Ack: duplicate''), log_effect (StorageGet (buildJobKey (Some j))) w)"
  using assms
  by (simp add: dispatch_def Let_def getJobRecord_eq truthy_opt_def present_def ledger_includes_def)

text \<open>What the dispatcher does once the idempotency check has let the event through.\<close>

lemma dispatch_process:
  assumes "prop_opt (prop_opt (Some webhookEvent) ''data'') ''id'' = Some j" "truthy j"
      and "kv w (buildJobKey (Some j)) = Some trackedJob"
      and "(if present (normaliseHeaderValue (hs ''webhook-id''))
            then ledger_includes (trackedJob ''processedWebhookIds'')
                   (the (normaliseHeaderValue (hs ''webhook-id'')))
            else Inr False) = Inr False"
  shows "dispatch E hs webhookEvent w =
     (let webhookId = normaliseHeaderValue (hs ''webhook-id'');
          w2 = log_effect (Retrieve j) (log_effect (StorageGet (buildJobKey (Some j))) w)
      in case retrieveCompletion E j of
           Inl f \<Rightarrow>
             (case buildProcessedList (trackedJob ''processedWebhookIds'') webhookId of
                Inl e \<Rightarrow> (Inl e, w2)
              | Inr processedWebhookIds \<Rightarrow>
                  (Inr (ack ''Ack: retrieve failed''),
                   publishAppEvent (eventKeyFor (trackedJob ''jobType'') ''failed'')
                     (snd (updateJobRecord E (Some j)
                        (obj_of
                           [(''status'', Some (JStr FAILED)),
                            (''error'', Some (JObj
                               [(''reason'', JStr ''retrieve_failed''),
                                (''message'', JStr (fail_message f)),
                                (''stack'', JStr (fail_stack f))])),
                            (''processedWebhookIds'', Some processedWebhookIds)]) w2))))
         | Inr responsePayload \<Rightarrow>
             settle E (Some j) (prop_opt (Some webhookEvent) ''type'') webhookId trackedJob
               responsePayload w2)"
  using assms
  by (simp add: dispatch_def Let_def getJobRecord_eq truthy_opt_def split: sum.splits prod.splits)

lemma dispatch_outcome:
  assumes d: "dispatch E hs webhookEvent w = (r, w')"
  shows "(kv w' = kv w \<and> ((\<exists>e. r = Inl e) \<or> (\<exists>text. r = Inr (ack text))))
       \<or> (\<exists>j trackedJob text updates key processed.
             prop_opt (prop_opt (Some webhookEvent) ''data'') ''id'' = Some j \<and> truthy j
           \<and> kv w (buildJobKey (Some j)) = Some trackedJob
           \<and> r = Inr (ack text)
           \<and> w' = publishAppEvent key
                    (snd (updateJobRecord E (Some j) updates
                            (log_effect (Retrieve j)
                               (log_effect (StorageGet (buildJobKey (Some j))) w))))
           \<and> buildProcessedList (trackedJob ''processedWebhookIds'')
                 (normaliseHeaderValue (hs ''webhook-id'')) = Inr processed
           \<and> updates ''processedWebhookIds'' = Some processed
           \<and> is_final (updates ''status'')
           \<and> (\<forall>p. p \<notin> webhook_fields \<longrightarrow> updates p = None))"
proof (cases "truthy_opt (prop_opt (prop_opt (Some webhookEvent) ''data'') ''id'')")
  case False
  with d show ?thesis by (auto simp: dispatch_missing_job_id)
next
  case True
  then obtain j where j: "prop_opt (prop_opt (Some webhookEvent) ''data'') ''id'' = Some j" "truthy j"
    by (auto simp: truthy_opt_def split: option.splits)
  let ?key = "buildJobKey (Some j)"
  let ?wid = "normaliseHeaderValue (hs ''webhook-id'')"
  show ?thesis
  proof (cases "kv w ?key")
    case None
    with d j show ?thesis by (auto simp: dispatch_untracked)
  next
    case (Some trackedJob)
    let ?check = "if present ?wid then ledger_includes (trackedJob ''processedWebhookIds'') (the ?wid)
                  else Inr False"
    let ?w2 = "log_effect (Retrieve j) (log_effect (StorageGet ?key) w)"
    show ?thesis
    proof (cases ?check)
      case (Inl e)
      with d j Some show ?thesis
        by (auto simp: dispatch_def Let_def getJobRecord_eq truthy_opt_def)
    next
      case (Inr dup)
      show ?thesis
      proof (cases dup)
        case True
        with d j Some Inr show ?thesis
          by (auto simp: dispatch_def Let_def getJobRecord_eq truthy_opt_def)
      next
        case False
        with Inr have chk: "?check = Inr False" by simp
        note p = dispatch_process [where E=E and webhookEvent=webhookEvent and hs=hs and w=w
                   and j=j and trackedJob=trackedJob, OF j Some chk]
        show ?thesis
        proof (cases "retrieveCompletion E j")
          case (Inl f)
          show ?thesis
          proof (cases "buildProcessedList (trackedJob ''processedWebhookIds'') ?wid")
            case e: (Inl e)
            with d p Inl show ?thesis by (auto simp: Let_def)
          next
            case pr: (Inr processed)
            let ?u = "obj_of
                           [(''status'', Some (JStr FAILED)),
                            (''error'', Some (JObj
                               [(''reason'', JStr ''retrieve_failed''),
                                (''message'', JStr (fail_message f)),
                                (''stack'', JStr (fail_stack f))])),
                            (''processedWebhookIds'', Some processed)]"
            have u: "?u ''processedWebhookIds'' = Some processed" "is_final (?u ''status'')"
                    "\<forall>p. p \<notin> webhook_fields \<longrightarrow> ?u p = None"
              by (simp_all add: obj_of_def is_final_def FINAL_STATUSES_def webhook_fields_def)
            from d p Inl pr have "r = Inr (ack ''Ack: retrieve failed'')
                \<and> w' = publishAppEvent (eventKeyFor (trackedJob ''jobType'') ''failed'')
                          (snd (updateJobRecord E (Some j) ?u ?w2))"
              by (auto simp: Let_def)
            with u j Some pr show ?thesis by blast
          qed
        next
          case (Inr payload)
          with d p have s: "settle E (Some j) (prop_opt (Some webhookEvent) ''type'') ?wid
                              trackedJob payload ?w2 = (r, w')"
            by (simp add: Let_def)
          from settle_outcome [OF s] show ?thesis
          proof
            assume "\<exists>e. r = Inl e \<and> w' = ?w2"
            then show ?thesis by auto
          next
            assume "\<exists>text updates key processed.
                r = Inr (ack text)
              \<and> w' = publishAppEvent key (snd (updateJobRecord E (Some j) updates ?w2))
              \<and> buildProcessedList (trackedJob ''processedWebhookIds'') ?wid = Inr processed
              \<and> updates ''processedWebhookIds'' = Some processed
              \<and> is_final (updates ''status'')
              \<and> (\<forall>p. p \<notin> webhook_fields \<longrightarrow> updates p = None)"
            with j Some show ?thesis by blast
          qed
        qed
      qed
    qed
  qed
qed



lemma run_by_cases:
  "openaiWebhook_run E event w =
     (case accepted_event E event of
        Some webhookEvent \<Rightarrow> dispatch E (normaliseHeaders (ev_headers event)) webhookEvent w
      | None \<Rightarrow>
          (Inr \<lparr>statusCode = (if present (ensureWebhookSecret E) then 400 else 401),
                body = (if present (ensureWebhookSecret E) then ''Invalid webhook signature''
                        else ''Webhook secret not configured'')\<rparr>, w))"
  by (simp add: openaiWebhook_run_def accepted_event_def present_def Let_def
           split: option.splits sum.splits)


lemma run_status_codes:
  assumes "fst (openaiWebhook_run E event w) = Inr resp"
  shows "statusCode resp =
           (if \<not> present (ensureWebhookSecret E) then 401
            else if accepted_event E event = None then 400
            else 200)"
proof (cases "accepted_event E event")
  case None
  with assms show ?thesis by (auto simp: run_by_cases)
next
  case (Some webhookEvent)
  then have p: "present (ensureWebhookSecret E)"
    by (auto simp: accepted_event_def present_def split: option.splits if_splits)
  obtain r w' where d: "dispatch E (normaliseHeaders (ev_headers event)) webhookEvent w = (r, w')"
    by (cases "dispatch E (normaliseHeaders (ev_headers event)) webhookEvent w")
  with assms Some have r: "r = Inr resp" by (simp add: run_by_cases)
  from dispatch_outcome [OF d] r have "\<exists>t. resp = ack t" by auto
  with p Some show ?thesis by (auto simp: ack_def)
qed

lemma run_rejected_touches_nothing:
  "accepted_event E event = None \<Longrightarrow> snd (openaiWebhook_run E event w) = w"
  by (simp add: run_by_cases)

subsection \<open>The concrete callbacks\<close>

lemma demo_secret: "ensureWebhookSecret demo_env = Some ''whsec_a2V5''"
  by (simp add: ensureWebhookSecret_def str_or_def present_def demo_env_def)

lemma replay_event_accepted: "accepted_event demo_env replay_event = Some demo_event"
  by code_simp



lemma demo_event_job: "job_id_of demo_event = Some (JStr ''resp_1'')"
  by (simp add: job_id_of_def demo_event_def prop_opt_def)

lemma demo_delivery_ids:
  "delivery_id replay_event = Some ''wh_1''"
  "delivery_id second_event = Some ''wh_2''"
  "delivery_id native_event = None"
  by code_simp+

lemma demo_job_ledger: "demo_job ''processedWebhookIds'' = Some (JArr [JStr ''wh_1''])"
  by (simp add: demo_job_def obj_of_def)

lemma demo_world_tracks: "kv demo_world (buildJobKey (Some (JStr ''resp_1''))) = Some demo_job"
  by (simp add: demo_key demo_world_def)

subsection \<open>Replayed deliveries\<close>

text \<open>
  Claim C3. When a callback that passes verification names a tracked job and carries a
  delivery id that is already in the job's \<open>processedWebhookIds\<close>, the handler answers
  200 with the body \<open>Ack: duplicate\<close>; its only effect is the read of the job record, so
  the stored record (status, result, error and the ledger itself) is unchanged and the
  ledger gains no entry.
\<close>

theorem replayed_delivery_is_ignored:
  assumes acc: "accepted_event E event = Some webhookEvent"
      and job: "job_id_of webhookEvent = Some j" "truthy j"
      and tracked: "kv w (buildJobKey (Some j)) = Some trackedJob"
      and wid: "delivery_id event = Some wid" "wid \<noteq> []"
      and ledger: "trackedJob ''processedWebhookIds'' = Some (JArr ledger)" "JStr wid \<in> set ledger"
  shows "fst (openaiWebhook_run E event w) = Inr \<lparr>statusCode = 200, body = ''Ack: duplicate''\<rparr>
       \<and> kv (snd (openaiWebhook_run E event w)) = kv w
       \<and> trace (snd (openaiWebhook_run E event w)) = trace w @ [StorageGet (buildJobKey (Some j))]"
proof -
  have "openaiWebhook_run E event w
        = (Inr (ack ''Ack: duplicate''), log_effect (StorageGet (buildJobKey (Some j))) w)"
    using dispatch_duplicate [where E=E and hs="normaliseHeaders (ev_headers event)" and w=w
             and webhookEvent=webhookEvent and j=j and trackedJob=trackedJob and wid=wid
             and ledger=ledger]
          acc job tracked wid ledger
    by (simp add: run_by_cases job_id_of_def delivery_id_def)
  then show ?thesis by (simp add: ack_def)
qed

theorem replayed_delivery_is_ignored_witness:
  "accepted_event demo_env replay_event = Some demo_event
   \<and> job_id_of demo_event = Some (JStr ''resp_1'')
   \<and> kv demo_world (buildJobKey (Some (JStr ''resp_1''))) = Some demo_job
   \<and> delivery_id replay_event = Some ''wh_1''
   \<and> demo_job ''processedWebhookIds'' = Some (JArr [JStr ''wh_1''])
   \<and> fst (openaiWebhook_run demo_env replay_event demo_world)
       = Inr \<lparr>statusCode = 200, body = ''Ack: duplicate''\<rparr>
   \<and> kv (snd (openaiWebhook_run demo_env replay_event demo_world)) = kv demo_world
   \<and> trace (snd (openaiWebhook_run demo_env replay_event demo_world))
       = [StorageGet ''async-job:resp_1'']"
proof -
  have t: "truthy (JStr ''resp_1'')" and n: "''wh_1'' \<noteq> []"
   and m: "JStr ''wh_1'' \<in> set [JStr ''wh_1'']"
    by simp_all
  note c = replayed_delivery_is_ignored [OF replay_event_accepted demo_event_job t
             demo_world_tracks demo_delivery_ids(1) n demo_job_ledger m]
  show ?thesis
    using c replay_event_accepted demo_event_job demo_world_tracks demo_delivery_ids(1)
          demo_job_ledger
    by (simp add: demo_key demo_world_def)
qed

subsection \<open>Deliveries without an id\<close>



subsection \<open>Status codes\<close>

text \<open>
  Claim C4. The handler answers 401 without a secret, 400 without touching the store when
  verification or parsing fails, and 200 whenever the dispatcher returns
  (\<open>run_status_codes\<close>, \<open>run_rejected_touches_nothing\<close>). It does not always return: for the
  queued job \<open>resp_1\<close>, a verified callback whose retrieved artifact reports \<open>completed\<close>
  with no output makes \<open>parseFinalResponse\<close> throw, the exception leaves \<open>run\<close>, no
  response is produced and the job stays queued.
\<close>

theorem completed_artifact_with_unparsable_text_throws:
  "fst (openaiWebhook_run completed_without_output native_event pending_world)
     = Inl (JsError ''Failed to parse final response: Unexpected token'')
   \<and> stored_property (snd (openaiWebhook_run completed_without_output native_event pending_world))
        ''async-job:resp_1'' ''status'' = Some (JStr ''queued'')"
  by code_simp

subsection \<open>Settled jobs\<close>








end
